theory Spec2Isabelle
  imports Main "HOL-Library.Multiset" "HOL-Library.Sublist"
begin

section \<open>Values, frames and handles\<close>

text \<open>
  The handlers of \<^verbatim>\<open>SQLHandlers.py\<close> are glue between a database driver (pyodbc,
  SQLAlchemy) and a tabular-data library (pandas). The embedding keeps the Python
  control flow of every method and makes the outside world explicit: each call into the
  driver is appended to a log together with the driver's reply, and the reply itself is
  read from a \<open>driver\<close> parameter that may depend on everything issued so far.

  Exceptions are values. The messages of the two exceptions raised by the source itself
  are kept; \<open>DriverError\<close> stands for whatever the driver raises.
\<close>

datatype exn =
    ValueError string
  | TypeError string
  | KeyError string
  | AttributeError string
  | DriverError string

text \<open>
  A cell of a data frame. \<open>PyNone\<close>, \<open>NaN\<close> and \<open>NaT\<close> are the three values pandas
  treats as missing; \<open>Str\<close> is a Python string; \<open>Val\<close> carries any other scalar
  (a number, a boolean, a timestamp), which the handlers never inspect.
\<close>

datatype 'v cell = PyNone | NaN | NaT | Str string | Val 'v

fun isna :: "'v cell \<Rightarrow> bool" where
  "isna PyNone = True"
| "isna NaN = True"
| "isna NaT = True"
| "isna (Str _) = False"
| "isna (Val _) = False"

datatype dtype = Object | Float64 | Int64 | Boolean | Datetime64

text \<open>
  A pandas DataFrame: the column labels with their dtypes, in order, and the cells row
  by row, each cell as its column holds it (an int64 column holds exact integers, also
  beside a float64 column). In a frame every row has one cell per column.
\<close>

record 'v frame =
  columns :: "(string \<times> dtype) list"
  rows :: "'v cell list list"

definition wf_frame :: "'v frame \<Rightarrow> bool" where
  "wf_frame df = list_all (\<lambda>r. length r = length (columns df)) (rows df)"

text \<open>The two attributes \<^verbatim>\<open>__init__\<close> stores on a handle.\<close>

record handler =
  connection_string :: string
  read_only :: bool

definition SQLPyodbcHandler :: "string \<Rightarrow> bool option \<Rightarrow> handler" where
  "SQLPyodbcHandler cs ro =
     \<lparr>connection_string = cs,
      read_only = (case ro of None \<Rightarrow> False | Some b \<Rightarrow> b)\<rparr>"

section \<open>The outside world\<close>

text \<open>
  One entry per call into pyodbc, pandas or SQLAlchemy, oldest first; the last argument
  of an entry is the exception the call raised, if any. \<open>ExitCommit\<close> and
  \<open>ExitRollback\<close> are what leaving a \<^verbatim>\<open>with conn:\<close> block does on a pyodbc connection
  whose autocommit is off (the default, and what \<^verbatim>\<open>_insert_values\<close> sets): commit when
  the block ends normally, rollback when an exception leaves it.
\<close>

datatype 'v call =
    Connect string "exn option"
  | ReadSql string "'v cell list option" "(string \<times> 'v cell) list" "exn option"
  | Execute string "'v cell list option" "exn option"
  | FetchAll "exn option"
  | ExecuteMany string "'v cell list list" "exn option"
  | Commit "exn option"
  | ExitCommit
  | ExitRollback
  | ToSql string string "'v frame" "exn option"

datatype 'v out = OutStr string | OutExn exn | OutRow "'v cell list"

record 'v state =
  handle :: handler
  calls :: "'v call list"
  stdout :: "'v out list"

text \<open>
  The replies of the libraries, given the calls issued so far. \<open>drv_quote_plus\<close> is
  \<^verbatim>\<open>urllib.parse.quote_plus\<close>. \<open>drv_tolist t\<close> is what numpy lists for a cell held in
  an array of dtype \<open>t\<close>, for a dtype other than object: the float nearest to an integer
  in a float64 array, for instance. Nothing is assumed of it.
\<close>

record 'v driver =
  drv_connect :: "'v call list \<Rightarrow> string \<Rightarrow> exn option"
  drv_read_sql :: "'v call list \<Rightarrow> string \<Rightarrow> 'v cell list option \<Rightarrow>
     (string \<times> 'v cell) list \<Rightarrow> exn + 'v frame"
  drv_execute :: "'v call list \<Rightarrow> string \<Rightarrow> 'v cell list option \<Rightarrow> exn option"
  drv_fetchall :: "'v call list \<Rightarrow> exn + 'v cell list list"
  drv_executemany :: "'v call list \<Rightarrow> string \<Rightarrow> 'v cell list list \<Rightarrow> exn option"
  drv_commit :: "'v call list \<Rightarrow> exn option"
  drv_to_sql :: "'v call list \<Rightarrow> string \<Rightarrow> string \<Rightarrow> 'v frame \<Rightarrow> exn option"
  drv_quote_plus :: "string \<Rightarrow> string"
  drv_tolist :: "dtype \<Rightarrow> 'v cell \<Rightarrow> 'v cell"

type_synonym ('v, 'a) action = "'v state \<Rightarrow> (exn + 'a) \<times> 'v state"

definition ret :: "'a \<Rightarrow> ('v, 'a) action" where
  "ret x s = (Inr x, s)"

definition raise :: "exn \<Rightarrow> ('v, 'a) action" where
  "raise e s = (Inl e, s)"

definition then_do :: "('v, 'a) action \<Rightarrow> ('a \<Rightarrow> ('v, 'b) action) \<Rightarrow> ('v, 'b) action" where
  "then_do m f s = (case m s of (Inl e, s') \<Rightarrow> (Inl e, s') | (Inr x, s') \<Rightarrow> f x s')"

definition emit :: "'v call \<Rightarrow> 'v state \<Rightarrow> 'v state" where
  "emit c s = s\<lparr>calls := calls s @ [c]\<rparr>"

definition print_out :: "'v out \<Rightarrow> 'v state \<Rightarrow> 'v state" where
  "print_out x s = s\<lparr>stdout := stdout s @ [x]\<rparr>"

definition outcome :: "exn option \<Rightarrow> exn + unit" where
  "outcome r = (case r of None \<Rightarrow> Inr () | Some e \<Rightarrow> Inl e)"

text \<open>\<^verbatim>\<open>with conn: body\<close>\<close>

definition with_conn :: "('v, 'a) action \<Rightarrow> ('v, 'a) action" where
  "with_conn body s =
     (case body s of
        (Inl e, s') \<Rightarrow> (Inl e, emit ExitRollback s')
      | (Inr x, s') \<Rightarrow> (Inr x, emit ExitCommit s'))"

text \<open>\<^verbatim>\<open>self._conn()\<close> of the base handler: \<^verbatim>\<open>pyodbc.connect(self.connection_string)\<close>\<close>

definition conn :: "'v driver \<Rightarrow> ('v, unit) action" where
  "conn d s =
     (let cs = connection_string (handle s); r = drv_connect d (calls s) cs
      in (outcome r, emit (Connect cs r) s))"

definition cursor_execute ::
  "'v driver \<Rightarrow> string \<Rightarrow> 'v cell list option \<Rightarrow> ('v, unit) action" where
  "cursor_execute d stmt params s =
     (let r = drv_execute d (calls s) stmt params
      in (outcome r, emit (Execute stmt params r) s))"

definition cursor_executemany ::
  "'v driver \<Rightarrow> string \<Rightarrow> 'v cell list list \<Rightarrow> ('v, unit) action" where
  "cursor_executemany d stmt vals s =
     (let r = drv_executemany d (calls s) stmt vals
      in (outcome r, emit (ExecuteMany stmt vals r) s))"

definition cursor_commit :: "'v driver \<Rightarrow> ('v, unit) action" where
  "cursor_commit d s =
     (let r = drv_commit d (calls s) in (outcome r, emit (Commit r) s))"

definition cursor_fetchall :: "'v driver \<Rightarrow> ('v, 'v cell list list) action" where
  "cursor_fetchall d s =
     (case drv_fetchall d (calls s) of
        Inl e \<Rightarrow> (Inl e, emit (FetchAll (Some e)) s)
      | Inr rs \<Rightarrow> (Inr rs, emit (FetchAll None) s))"

definition read_sql ::
  "'v driver \<Rightarrow> string \<Rightarrow> 'v cell list option \<Rightarrow> (string \<times> 'v cell) list \<Rightarrow>
   ('v, 'v frame) action" where
  "read_sql d stmt params kw s =
     (case drv_read_sql d (calls s) stmt params kw of
        Inl e \<Rightarrow> (Inl e, emit (ReadSql stmt params kw (Some e)) s)
      | Inr f \<Rightarrow> (Inr f, emit (ReadSql stmt params kw None) s))"

section \<open>SQLPyodbcHandler\<close>

text \<open>
  The decorator \<^verbatim>\<open>allow_method\<close>: on a read-only handle the wrapped method is not
  entered; the wrapper prints and returns \<^verbatim>\<open>None\<close> (the unit value here).
\<close>

definition allow_method :: "('v, unit) action \<Rightarrow> ('v, unit) action" where
  "allow_method func s =
     (if read_only (handle s)
      then (Inr (), print_out (OutStr ''Cannot perform operation. Access is read-only.'') s)
      else func s)"

datatype 'v table = DataFrame "'v frame" | Tuples "'v cell list list"

text \<open>
  \<^verbatim>\<open>query\<close>, not under the guard. \<open>None\<close> for \<^verbatim>\<open>pandas_dataframe\<close> is an omitted
  argument, which is \<^verbatim>\<open>True\<close>.
\<close>

definition query ::
  "'v driver \<Rightarrow> string \<Rightarrow> 'v cell list option \<Rightarrow> bool option \<Rightarrow> (string \<times> 'v cell) list \<Rightarrow>
   ('v, 'v table) action" where
  "query d sql_query_statement parameters pandas_dataframe kwargs =
     then_do (conn d) (\<lambda>_.
       with_conn
         (if (case pandas_dataframe of None \<Rightarrow> True | Some b \<Rightarrow> b)
          then then_do (read_sql d sql_query_statement parameters kwargs)
                 (\<lambda>f. ret (DataFrame f))
          else then_do (cursor_execute d sql_query_statement parameters) (\<lambda>_.
                 then_do (cursor_fetchall d) (\<lambda>rs. ret (Tuples rs)))))"

definition execute :: "'v driver \<Rightarrow> string \<Rightarrow> 'v cell list \<Rightarrow> ('v, unit) action" where
  "execute d sql_statement parameters =
     allow_method
       (then_do (conn d) (\<lambda>_.
          with_conn (cursor_execute d sql_statement (Some parameters))))"

text \<open>The loop of the \<^verbatim>\<open>'raise'\<close> branch: the first exception leaves the loop.\<close>

fun execute_rows :: "'v driver \<Rightarrow> string \<Rightarrow> 'v cell list list \<Rightarrow> ('v, unit) action" where
  "execute_rows d stmt [] s = ret () s"
| "execute_rows d stmt (row # vals) s =
     then_do (cursor_execute d stmt (Some row)) (\<lambda>_. execute_rows d stmt vals) s"

text \<open>
  The loop of the \<^verbatim>\<open>'ignore'\<close> branch: \<^verbatim>\<open>try: c.execute(...)\<close>,
  \<^verbatim>\<open>except Exception as e:\<close> four prints, \<^verbatim>\<open>else: c.commit()\<close>. An exception of
  the commit is outside the \<^verbatim>\<open>try\<close> and leaves the loop.
\<close>

fun execute_rows_ignore ::
  "'v driver \<Rightarrow> string \<Rightarrow> 'v cell list list \<Rightarrow> ('v, unit) action" where
  "execute_rows_ignore d stmt [] s = ret () s"
| "execute_rows_ignore d stmt (row # vals) s =
     (case cursor_execute d stmt (Some row) s of
        (Inl e, s1) \<Rightarrow>
          execute_rows_ignore d stmt vals
            (print_out (OutStr [])
              (print_out (OutRow row)
                (print_out (OutExn e)
                  (print_out (OutStr []) s1))))
      | (Inr _, s1) \<Rightarrow>
          then_do (cursor_commit d) (\<lambda>_. execute_rows_ignore d stmt vals) s1)"

text \<open>
  \<^verbatim>\<open>iter_execute\<close>; \<open>vals\<close> are the rows the iterable yields and
  \<open>error_handling\<close> is the mode as passed (the string \<^verbatim>\<open>'raise'\<close> when omitted).
  The connection is opened before the mode is looked at.
\<close>

definition iter_execute ::
  "'v driver \<Rightarrow> string \<Rightarrow> 'v cell list list \<Rightarrow> string \<Rightarrow> ('v, unit) action" where
  "iter_execute d parameterized_sql_statement vals error_handling =
     allow_method
       (if CHR ''?'' \<notin> set parameterized_sql_statement
        then raise (ValueError ''Sql statement must be parameterized.'')
        else then_do (conn d) (\<lambda>_.
          if error_handling = ''raise''
          then with_conn (execute_rows d parameterized_sql_statement vals)
          else if error_handling = ''ignore''
          then with_conn (execute_rows_ignore d parameterized_sql_statement vals)
          else raise (TypeError
            ''Invalid argument for 'error_handling'. Argument must be 'raise' or 'ignore'.'')))"

subsection \<open>Bulk insert\<close>

text \<open>
  The keyword arguments \<^verbatim>\<open>bulk_insert\<close> reads with \<^verbatim>\<open>kwargs.get\<close>; \<open>None\<close> is an
  absent key. The frame is a value here: what \<^verbatim>\<open>dropna(inplace=True)\<close> and the
  assignments of the \<^verbatim>\<open>'*'\<close> branch leave in the caller's frame is not followed,
  only what reaches the inserts.
\<close>

record kwargs =
  remove_nulls :: "bool option"
  handle_nulls :: "string option"
  identity_insert_on :: "bool option"

text \<open>\<^verbatim>\<open>df.dropna()\<close>: the rows without a missing cell.\<close>

definition dropna :: "'v frame \<Rightarrow> 'v frame" where
  "dropna df = df\<lparr>rows := filter (\<lambda>r. \<not> list_ex isna r) (rows df)\<rparr>"

text \<open>
  The loop over \<^verbatim>\<open>df.columns\<close> of the \<^verbatim>\<open>'*'\<close> branch. With a repeated label
  \<^verbatim>\<open>df[col]\<close> is a frame, not a series, and \<^verbatim>\<open>.dtype\<close> raises.
\<close>

definition fillna_object_columns :: "'v frame \<Rightarrow> exn + 'v frame" where
  "fillna_object_columns df =
     (if distinct (map fst (columns df))
      then Inr (df\<lparr>rows :=
             map (\<lambda>r. map2 (\<lambda>(name, t) c. if t = Object \<and> isna c then Str [] else c)
                        (columns df) r)
               (rows df)\<rparr>)
      else Inl (AttributeError
             (CHR 0x27 # ''DataFrame' object has no attribute 'dtype'' @ [CHR 0x27])))"

text \<open>\<^verbatim>\<open>df.astype(object).where(pd.notnull(df), None)\<close>\<close>

definition nulls_to_None :: "'v frame \<Rightarrow> 'v frame" where
  "nulls_to_None df =
     \<lparr>columns = map (\<lambda>(name, t). (name, Object)) (columns df),
      rows = map (map (\<lambda>c. if isna c then PyNone else c)) (rows df)\<rparr>"

definition positions :: "string \<Rightarrow> string list \<Rightarrow> nat list" where
  "positions column names = filter (\<lambda>j. names ! j = column) [0..<length names]"

text \<open>
  \<^verbatim>\<open>_separate_nulls\<close>. \<^verbatim>\<open>df[column]\<close> raises \<^verbatim>\<open>KeyError\<close> for an unknown label;
  for a repeated label it is a frame, and \<^verbatim>\<open>.loc\<close> refuses the two-dimensional mask.
\<close>

definition separate_nulls :: "'v frame \<Rightarrow> string \<Rightarrow> exn + ('v frame \<times> 'v frame)" where
  "separate_nulls df column =
     (case positions column (map fst (columns df)) of
        [] \<Rightarrow> Inl (KeyError column)
      | [j] \<Rightarrow>
          (let vals = df\<lparr>rows := filter (\<lambda>r. \<not> isna (r ! j)) (rows df)\<rparr>;
               nulls = df\<lparr>rows := filter (\<lambda>r. isna (r ! j)) (rows df)\<rparr>;
               nulls = nulls\<lparr>columns := (columns nulls)[j := (column, Object)],
                             rows := map (\<lambda>r. r[j := PyNone]) (rows nulls)\<rparr>
           in Inr (vals, nulls))
      | _ \<Rightarrow> Inl (ValueError ''Cannot index with multidimensional key''))"

fun join :: "string \<Rightarrow> string list \<Rightarrow> string" where
  "join sep [] = []"
| "join sep [x] = x"
| "join sep (x # y # ys) = x @ sep @ join sep (y # ys)"

definition sql_insert_statement :: "'v frame \<Rightarrow> string \<Rightarrow> bool \<Rightarrow> string" where
  "sql_insert_statement df table_name ident =
     (let c = map fst (columns df);
          cols = join '','' c;
          params = join '','' (map (\<lambda>_. ''?'') c);
          stmt = ''INSERT INTO '' @ table_name @ '' ('' @ cols @ '') VALUES ('' @ params @ '');''
      in if ident
         then ''SET IDENTITY_INSERT '' @ table_name @ '' ON; '' @ stmt @
              '' SET IDENTITY_INSERT '' @ table_name @ '' OFF;''
         else stmt)"

text \<open>
  \<^verbatim>\<open>df.values.tolist()\<close>. The array of a frame has one dtype for all its columns: the
  dtype of the columns when they agree, float64 for a mix of int64 and float64 (and for
  a frame without columns), object for every other mix. An object array holds the cells
  as they are; from an array of another dtype each cell is listed as numpy converts it.
\<close>

definition common_dtype :: "dtype list \<Rightarrow> dtype" where
  "common_dtype ts =
     (case ts of
        [] \<Rightarrow> Float64
      | t # _ \<Rightarrow>
          if list_all (\<lambda>u. u = t) ts then t
          else if list_all (\<lambda>u. u = Int64 \<or> u = Float64) ts then Float64
          else Object)"

definition values_tolist :: "'v driver \<Rightarrow> 'v frame \<Rightarrow> 'v cell list list" where
  "values_tolist d df =
     (let t = common_dtype (map snd (columns df))
      in if t = Object then rows df else map (map (drv_tolist d t)) (rows df))"

text \<open>\<^verbatim>\<open>_insert_values\<close>, itself under \<^verbatim>\<open>allow_method\<close>.\<close>

definition insert_values ::
  "'v driver \<Rightarrow> 'v frame \<Rightarrow> string \<Rightarrow> bool \<Rightarrow> ('v, unit) action" where
  "insert_values d df table_name ident =
     allow_method
       (let stmt = sql_insert_statement df table_name ident;
            vals = values_tolist d df
        in if length vals > 0
           then then_do (conn d) (\<lambda>_.
                  with_conn
                    (then_do (cursor_executemany d stmt vals) (\<lambda>_. cursor_commit d)))
           else ret ())"

text \<open>
  The body of \<^verbatim>\<open>bulk_insert\<close>. \<open>ins\<close> is \<^verbatim>\<open>self._insert_values\<close>, which the
  subclass overrides.
\<close>

definition bulk_insert_body ::
  "('v frame \<Rightarrow> string \<Rightarrow> bool \<Rightarrow> ('v, unit) action) \<Rightarrow>
   'v frame \<Rightarrow> string \<Rightarrow> kwargs \<Rightarrow> ('v, unit) action" where
  "bulk_insert_body ins df table_name kw =
     (let rm = (case remove_nulls kw of None \<Rightarrow> False | Some b \<Rightarrow> b);
          hn = handle_nulls kw;
          ident = (case identity_insert_on kw of None \<Rightarrow> False | Some b \<Rightarrow> b);
          df = (if rm then dropna df else df)
      in if hn = Some ''*''
         then (case fillna_object_columns df of
                 Inl e \<Rightarrow> raise e
               | Inr df1 \<Rightarrow> ins (nulls_to_None df1) table_name ident)
         else (case hn of
                 Some column \<Rightarrow>
                   (case separate_nulls df column of
                      Inl e \<Rightarrow> raise e
                    | Inr (vals, nulls) \<Rightarrow>
                        then_do (ins vals table_name ident) (\<lambda>_. ins nulls table_name ident))
               | None \<Rightarrow> ins df table_name ident))"

definition bulk_insert ::
  "'v driver \<Rightarrow> 'v frame \<Rightarrow> string \<Rightarrow> kwargs \<Rightarrow> ('v, unit) action" where
  "bulk_insert d df table_name kw =
     allow_method (bulk_insert_body (insert_values d) df table_name kw)"

section \<open>SQLAlchemyHandler\<close>

text \<open>
  The subclass overrides \<^verbatim>\<open>_conn\<close> (an engine, identified by its URL) and
  \<^verbatim>\<open>_insert_values\<close> (\<^verbatim>\<open>df.to_sql(table_name, schema='dbo', con=..., if_exists='append',
  index=False)\<close>, not under \<^verbatim>\<open>allow_method\<close>, with no test for an empty frame);
  \<^verbatim>\<open>bulk_insert\<close> and \<^verbatim>\<open>_separate_nulls\<close> call the inherited ones. \<^verbatim>\<open>query\<close>,
  \<^verbatim>\<open>execute\<close> and \<^verbatim>\<open>iter_execute\<close> are redefined as \<^verbatim>\<open>def f(self): pass\<close>:
  \<open>args\<close> are the arguments of a call after \<^verbatim>\<open>self\<close>, and any argument is one too many.
\<close>

definition sqlalchemy_conn :: "'v driver \<Rightarrow> handler \<Rightarrow> string" where
  "sqlalchemy_conn d h =
     ''mssql+pyodbc:///?odbc_connect='' @ drv_quote_plus d (connection_string h)"

definition sa_insert_values ::
  "'v driver \<Rightarrow> 'v frame \<Rightarrow> string \<Rightarrow> bool \<Rightarrow> ('v, unit) action" where
  "sa_insert_values d df table_name insert_identity_on s =
     (let url = sqlalchemy_conn d (handle s);
          r = drv_to_sql d (calls s) url table_name df
      in (outcome r, emit (ToSql url table_name df r) s))"

definition sa_bulk_insert ::
  "'v driver \<Rightarrow> 'v frame \<Rightarrow> string \<Rightarrow> kwargs \<Rightarrow> ('v, unit) action" where
  "sa_bulk_insert d df table_name kw =
     allow_method (bulk_insert_body (sa_insert_values d) df table_name kw)"

definition no_arguments :: "string \<Rightarrow> 'a list \<Rightarrow> ('v, unit) action" where
  "no_arguments name args =
     (if args = [] then ret ()
      else raise (TypeError (name @ ''() takes 1 positional argument but more were given'')))"

definition sa_query :: "'a list \<Rightarrow> ('v, unit) action" where
  "sa_query args = no_arguments ''query'' args"

definition sa_execute :: "'a list \<Rightarrow> ('v, unit) action" where
  "sa_execute args = no_arguments ''execute'' args"

definition sa_iter_execute :: "'a list \<Rightarrow> ('v, unit) action" where
  "sa_iter_execute args = no_arguments ''iter_execute'' args"

section \<open>ConnectionString and SQLDatabase\<close>

text \<open>
  The attributes \<^verbatim>\<open>ConnectionString.__init__\<close> sets on the instance, in the order of
  the assignments. The backslash of the local string is written as its code.
\<close>

definition ConnectionString :: "(string \<times> string) list" where
  "ConnectionString =
     [(''prod'', ''Driver={ODBC Driver 17 for SQL Server}; Server=XXXXXXX; Database=ProdDatabaseName; Trusted_Connection=yes;''),
      (''dev'', ''Driver={ODBC Driver 17 for SQL Server}; Server=XXXXXXX; Database=DevDatabasename; Trusted_Connection=yes;''),
      (''qa'', ''Driver={ODBC Driver 17 for SQL Server}; Server=XXXXXXX; Database=QADatabaseName; Trusted_Connection=yes;''),
      (''local'', ''Driver={ODBC Driver 17 for SQL Server}; Server=(localDB)'' @ [CHR 0x5C] @
         ''MSSQLLocalDB; Database=MyLocalDb;'')]"

text \<open>
  Reading an instance attribute, as \<^verbatim>\<open>ConnectionString().prod\<close> does.
  (\<^verbatim>\<open>create_string\<close> is \<^verbatim>\<open>getattr\<close> on the instance, which no other file calls.)
\<close>

definition attribute :: "string \<Rightarrow> exn + string" where
  "attribute name =
     (case map_of ConnectionString name of
        None \<Rightarrow> Inl (AttributeError name)
      | Some v \<Rightarrow> Inr v)"

text \<open>
  The named constructors of \<^verbatim>\<open>SQLDatabase\<close>, each
  \<^verbatim>\<open>cls(ConnectionString().name, read_only)\<close>; \<open>None\<close> is an omitted
  \<^verbatim>\<open>read_only\<close>, which takes the default of the signature.
\<close>

definition SQLDatabase_prod :: "bool option \<Rightarrow> exn + handler" where
  "SQLDatabase_prod ro =
     (case attribute ''prod'' of
        Inl e \<Rightarrow> Inl e
      | Inr cs \<Rightarrow> Inr (SQLPyodbcHandler cs (Some (case ro of None \<Rightarrow> True | Some b \<Rightarrow> b))))"

definition SQLDatabase_qa :: "bool option \<Rightarrow> exn + handler" where
  "SQLDatabase_qa ro =
     (case attribute ''qa'' of
        Inl e \<Rightarrow> Inl e
      | Inr cs \<Rightarrow> Inr (SQLPyodbcHandler cs (Some (case ro of None \<Rightarrow> False | Some b \<Rightarrow> b))))"

definition SQLDatabase_dev :: "bool option \<Rightarrow> exn + handler" where
  "SQLDatabase_dev ro =
     (case attribute ''dev'' of
        Inl e \<Rightarrow> Inl e
      | Inr cs \<Rightarrow> Inr (SQLPyodbcHandler cs (Some (case ro of None \<Rightarrow> False | Some b \<Rightarrow> b))))"

definition SQLDatabase_local :: "bool option \<Rightarrow> exn + handler" where
  "SQLDatabase_local ro =
     (case attribute ''local'' of
        Inl e \<Rightarrow> Inl e
      | Inr cs \<Rightarrow> Inr (SQLPyodbcHandler cs (Some (case ro of None \<Rightarrow> False | Some b \<Rightarrow> b))))"

section \<open>Reading the log\<close>

text \<open>
  The calls a method issued are those the log gained between the state before and the
  state after. An insert pass is one \<^verbatim>\<open>executemany\<close>; \<open>passes\<close> lists the row
  sets of the passes in a stretch of the log.
\<close>

definition issued :: "'v state \<Rightarrow> 'v state \<Rightarrow> 'v call list" where
  "issued s s' = drop (length (calls s)) (calls s')"

fun passes :: "'v call list \<Rightarrow> 'v cell list list list" where
  "passes [] = []"
| "passes (ExecuteMany stmt vals r # cs) = vals # passes cs"
| "passes (c # cs) = passes cs"

section \<open>A driver, a frame and two handles for the instances\<close>

text \<open>
  A frame with one numeric and one text column and missing cells in both, and a frame
  of an int64 and a float64 column whose first integer is not a float; a driver that
  opens every connection, refuses exactly the row of Bob and lists that integer from a
  float64 array as the float next to it; a writable and a read-only handle with nothing
  issued yet.
\<close>

definition sample_frame :: "nat frame" where
  "sample_frame =
     \<lparr>columns = [(''ID'', Float64), (''Name'', Object)],
      rows = [[Val 1, Str ''Mary''], [NaN, Str ''Bob''], [Val 3, PyNone]]\<rparr>"

definition numeric_frame :: "nat frame" where
  "numeric_frame =
     \<lparr>columns = [(''ID'', Int64), (''Score'', Float64)],
      rows = [[Val 9007199254740993, NaN], [Val 2, Val 5]]\<rparr>"

definition sample_driver :: "nat driver" where
  "sample_driver =
     \<lparr>drv_connect = (\<lambda>log cs. None),
      drv_read_sql = (\<lambda>log stmt params kw. Inr sample_frame),
      drv_execute = (\<lambda>log stmt params.
         if params = Some [Val 2, Str ''Bob''] then Some (DriverError ''duplicate key'')
         else None),
      drv_fetchall = (\<lambda>log. Inr (rows sample_frame)),
      drv_executemany = (\<lambda>log stmt vals. None),
      drv_commit = (\<lambda>log. None),
      drv_to_sql = (\<lambda>log url table_name df. None),
      drv_quote_plus = (\<lambda>cs. cs),
      drv_tolist = (\<lambda>t c.
         if t = Float64 \<and> c = Val 9007199254740993 then Val 9007199254740992 else c)\<rparr>"

definition writable :: "nat state" where
  "writable = \<lparr>handle = SQLPyodbcHandler ''DSN=dev'' None, calls = [], stdout = []\<rparr>"

definition readonly :: "nat state" where
  "readonly = \<lparr>handle = SQLPyodbcHandler ''DSN=prod'' (Some True), calls = [], stdout = []\<rparr>"

section \<open>The connection strings and the named constructors\<close>

text \<open>
  Claim C7. The store holds exactly the four names \<open>local\<close>, \<open>dev\<close>, \<open>qa\<close> and
  \<open>prod\<close>, each once, each with an ODBC driver string; and each named constructor of
  \<^verbatim>\<open>SQLDatabase\<close> returns a handle whose connection string is the store's entry for its
  name, whatever \<^verbatim>\<open>read_only\<close> is passed.
\<close>

theorem store_and_named_constructors:
  "set (map fst ConnectionString) = {''local'', ''dev'', ''qa'', ''prod''}
   \<and> distinct (map fst ConnectionString)
   \<and> list_all (\<lambda>(name, v). take 39 v = ''Driver={ODBC Driver 17 for SQL Server};'')
        ConnectionString
   \<and> (\<exists>h. SQLDatabase_prod ro = Inr h
          \<and> map_of ConnectionString ''prod'' = Some (connection_string h))
   \<and> (\<exists>h. SQLDatabase_qa ro = Inr h
          \<and> map_of ConnectionString ''qa'' = Some (connection_string h))
   \<and> (\<exists>h. SQLDatabase_dev ro = Inr h
          \<and> map_of ConnectionString ''dev'' = Some (connection_string h))
   \<and> (\<exists>h. SQLDatabase_local ro = Inr h
          \<and> map_of ConnectionString ''local'' = Some (connection_string h))"
  by (auto simp: ConnectionString_def SQLDatabase_prod_def SQLDatabase_qa_def
      SQLDatabase_dev_def SQLDatabase_local_def attribute_def
      SQLPyodbcHandler_def)

text \<open>
  Claim C8. With \<^verbatim>\<open>read_only\<close> omitted the constructor for \<open>prod\<close> builds a read-only
  handle and those for \<open>qa\<close>, \<open>dev\<close> and \<open>local\<close> build writable ones; an explicit
  argument is taken as given.
\<close>

theorem named_constructor_defaults:
  "map_sum id read_only (SQLDatabase_prod None) = Inr True
   \<and> map_sum id read_only (SQLDatabase_qa None) = Inr False
   \<and> map_sum id read_only (SQLDatabase_dev None) = Inr False
   \<and> map_sum id read_only (SQLDatabase_local None) = Inr False
   \<and> map_sum id read_only (SQLDatabase_prod (Some b)) = Inr b
   \<and> map_sum id read_only (SQLDatabase_qa (Some b)) = Inr b
   \<and> map_sum id read_only (SQLDatabase_dev (Some b)) = Inr b
   \<and> map_sum id read_only (SQLDatabase_local (Some b)) = Inr b"
  by (simp add: ConnectionString_def SQLDatabase_prod_def SQLDatabase_qa_def
      SQLDatabase_dev_def SQLDatabase_local_def attribute_def
      SQLPyodbcHandler_def)

section \<open>The read-only guard\<close>

text \<open>
  Claim C1. On a handle constructed with \<^verbatim>\<open>read_only=True\<close>, each of \<^verbatim>\<open>execute\<close>,
  \<^verbatim>\<open>iter_execute\<close> and \<^verbatim>\<open>bulk_insert\<close> returns \<^verbatim>\<open>None\<close> without raising, whatever
  its arguments; the only effect is the printed message: the log of driver calls and the
  handle are as before.
\<close>

theorem read_only_suppresses:
  assumes "handle s = SQLPyodbcHandler cs (Some True)"
  shows "execute d stmt ps s =
           (Inr (), s\<lparr>stdout := stdout s @
              [OutStr ''Cannot perform operation. Access is read-only.'']\<rparr>)
       \<and> iter_execute d stmt vals mode s =
           (Inr (), s\<lparr>stdout := stdout s @
              [OutStr ''Cannot perform operation. Access is read-only.'']\<rparr>)
       \<and> bulk_insert d df table_name kw s =
           (Inr (), s\<lparr>stdout := stdout s @
              [OutStr ''Cannot perform operation. Access is read-only.'']\<rparr>)"
  using assms
  by (simp add: execute_def iter_execute_def bulk_insert_def allow_method_def print_out_def
      SQLPyodbcHandler_def)

theorem read_only_suppresses_witness:
  "handle readonly = SQLPyodbcHandler ''DSN=prod'' (Some True)
   \<and> execute sample_driver ''DELETE FROM USERS;'' [] readonly =
       (Inr (), readonly\<lparr>stdout := stdout readonly @
          [OutStr ''Cannot perform operation. Access is read-only.'']\<rparr>)
   \<and> iter_execute sample_driver ''DELETE FROM USERS;'' [[Val 1]] ''continue'' readonly =
       (Inr (), readonly\<lparr>stdout := stdout readonly @
          [OutStr ''Cannot perform operation. Access is read-only.'']\<rparr>)
   \<and> bulk_insert sample_driver sample_frame ''USERS''
         \<lparr>remove_nulls = None, handle_nulls = Some ''Missing'', identity_insert_on = None\<rparr>
         readonly =
       (Inr (), readonly\<lparr>stdout := stdout readonly @
          [OutStr ''Cannot perform operation. Access is read-only.'']\<rparr>)"
proof -
  have h: "handle readonly = SQLPyodbcHandler ''DSN=prod'' (Some True)"
    by (simp add: readonly_def)
  from read_only_suppresses [OF h] h show ?thesis
    by blast
qed

section \<open>Row-by-row execution\<close>




text \<open>
  The two loops. In the first, the rows before the failing one were executed with
  success and nothing after it was executed. In the second, every row is executed, a
  commit follows each success and four printed lines each failure.
\<close>

lemma execute_rows_shape:
  "execute_rows d stmt vals s = (r, s') \<Longrightarrow>
     handle s' = handle s \<and> stdout s' = stdout s \<and>
     ((r = Inr () \<and> calls s' = calls s @ map (\<lambda>row. Execute stmt (Some row) None) vals)
      \<or> (\<exists>k e. k < length vals \<and> r = Inl e \<and>
            calls s' = calls s @ map (\<lambda>row. Execute stmt (Some row) None) (take k vals)
                        @ [Execute stmt (Some (vals ! k)) (Some e)]))"
proof (induction vals arbitrary: s)
  case Nil
  then show ?case by (simp add: ret_def)
next
  case (Cons row vals)
  show ?case
  proof (cases "drv_execute d (calls s) stmt (Some row)")
    case None
    let ?s1 = "emit (Execute stmt (Some row) None) s"
    from Cons.prems None have "execute_rows d stmt vals ?s1 = (r, s')"
      by (simp add: then_do_def cursor_execute_def outcome_def)
    from Cons.IH[OF this] have
      fr: "handle s' = handle s \<and> stdout s' = stdout s" and
      sh: "(r = Inr () \<and> calls s' = calls ?s1 @ map (\<lambda>row. Execute stmt (Some row) None) vals)
        \<or> (\<exists>k e. k < length vals \<and> r = Inl e \<and>
            calls s' = calls ?s1 @ map (\<lambda>row. Execute stmt (Some row) None) (take k vals)
                        @ [Execute stmt (Some (vals ! k)) (Some e)])"
      by (simp_all add: emit_def)
    from sh show ?thesis
    proof
      assume "r = Inr () \<and> calls s' = calls ?s1 @ map (\<lambda>row. Execute stmt (Some row) None) vals"
      with fr show ?thesis by (simp add: emit_def)
    next
      assume "\<exists>k e. k < length vals \<and> r = Inl e \<and>
            calls s' = calls ?s1 @ map (\<lambda>row. Execute stmt (Some row) None) (take k vals)
                        @ [Execute stmt (Some (vals ! k)) (Some e)]"
      then obtain k e where "k < length vals" "r = Inl e"
        "calls s' = calls ?s1 @ map (\<lambda>row. Execute stmt (Some row) None) (take k vals)
                        @ [Execute stmt (Some (vals ! k)) (Some e)]"
        by blast
      then have "Suc k < length (row # vals) \<and> r = Inl e \<and>
         calls s' = calls s @ map (\<lambda>row. Execute stmt (Some row) None) (take (Suc k) (row # vals))
                        @ [Execute stmt (Some ((row # vals) ! Suc k)) (Some e)]"
        by (simp add: emit_def)
      with fr show ?thesis by blast
    qed
  next
    case (Some e)
    with Cons.prems have "r = Inl e" "s' = emit (Execute stmt (Some row) (Some e)) s"
      by (simp_all add: then_do_def cursor_execute_def outcome_def)
    then have "0 < length (row # vals) \<and> r = Inl e \<and>
         calls s' = calls s @ map (\<lambda>row. Execute stmt (Some row) None) (take 0 (row # vals))
                        @ [Execute stmt (Some ((row # vals) ! 0)) (Some e)]"
      and "handle s' = handle s \<and> stdout s' = stdout s"
      by (simp_all add: emit_def)
    then show ?thesis by blast
  qed
qed

lemma execute_rows_ignore_shape:
  assumes "\<And>l. drv_commit d l = None"
  shows "\<exists>replies. length replies = length vals \<and>
     execute_rows_ignore d stmt vals s =
       (Inr (),
        s\<lparr>calls := calls s @ concat (map2 (\<lambda>row reply. Execute stmt (Some row) reply #
                        (case reply of None \<Rightarrow> [Commit None] | Some e \<Rightarrow> [])) vals replies),
          stdout := stdout s @ concat (map2 (\<lambda>row reply. case reply of None \<Rightarrow> []
                        | Some e \<Rightarrow> [OutStr [], OutExn e, OutRow row, OutStr []]) vals replies)\<rparr>)"
    (is "\<exists>replies. ?P vals s replies")
proof (induction vals arbitrary: s)
  case Nil
  then show ?case by (simp add: ret_def)
next
  case (Cons row vals)
  show ?case
  proof (cases "drv_execute d (calls s) stmt (Some row)")
    case None
    let ?s1 = "emit (Commit None) (emit (Execute stmt (Some row) None) s)"
    from Cons.IH[of ?s1] obtain replies where "?P vals ?s1 replies"
      by blast
    with None assms have "?P (row # vals) s (None # replies)"
      by (simp add: then_do_def cursor_execute_def cursor_commit_def outcome_def emit_def)
    then show ?thesis by blast
  next
    case (Some e)
    let ?s1 = "print_out (OutStr []) (print_out (OutRow row) (print_out (OutExn e)
                  (print_out (OutStr []) (emit (Execute stmt (Some row) (Some e)) s))))"
    from Cons.IH[of ?s1] obtain replies where "?P vals ?s1 replies"
      by blast
    with Some have "?P (row # vals) s (Some e # replies)"
      by (simp add: cursor_execute_def outcome_def emit_def print_out_def)
    then show ?thesis by blast
  qed
qed


text \<open>
  Claim C2. On a writable handle, for a parameterized statement and a connection that
  opens: with mode \<^verbatim>\<open>'raise'\<close> the statement is executed once per row, in order, up to
  and including the first row that fails; if none fails the block commits on exit, and
  if row \<open>k\<close> fails its exception is raised, the block rolls back on exit and no commit
  was issued. With mode \<^verbatim>\<open>'ignore'\<close> (commits succeeding) the statement is executed
  once for every row, each success is followed at once by its own commit, each failure
  by the printed exception and row, and the call returns \<^verbatim>\<open>None\<close>.
\<close>

theorem iter_execute_modes:
  assumes "\<not> read_only (handle s)"
    and "CHR ''?'' \<in> set stmt"
    and "drv_connect d (calls s) (connection_string (handle s)) = None"
  shows "(\<exists>r s'. iter_execute d stmt vals ''raise'' s = (r, s') \<and>
            handle s' = handle s \<and> stdout s' = stdout s \<and>
            ((r = Inr () \<and>
              calls s' = calls s @ Connect (connection_string (handle s)) None #
                 map (\<lambda>row. Execute stmt (Some row) None) vals @ [ExitCommit])
             \<or> (\<exists>k e. k < length vals \<and> r = Inl e \<and>
                  calls s' = calls s @ Connect (connection_string (handle s)) None #
                    map (\<lambda>row. Execute stmt (Some row) None) (take k vals) @
                    [Execute stmt (Some (vals ! k)) (Some e), ExitRollback])))
       \<and> ((\<forall>l. drv_commit d l = None) \<longrightarrow>
            (\<exists>replies. length replies = length vals \<and>
               iter_execute d stmt vals ''ignore'' s =
                 (Inr (),
                  s\<lparr>calls := calls s @ Connect (connection_string (handle s)) None #
                       concat (map2 (\<lambda>row reply. Execute stmt (Some row) reply #
                          (case reply of None \<Rightarrow> [Commit None] | Some e \<Rightarrow> [])) vals replies) @
                       [ExitCommit],
                    stdout := stdout s @
                       concat (map2 (\<lambda>row reply. case reply of None \<Rightarrow> []
                          | Some e \<Rightarrow> [OutStr [], OutExn e, OutRow row, OutStr []])
                          vals replies)\<rparr>)))"
proof (intro conjI impI)
  let ?cs = "connection_string (handle s)"
  let ?s1 = "emit (Connect ?cs None) s"
  obtain r s2 where e: "execute_rows d stmt vals ?s1 = (r, s2)"
    by (cases "execute_rows d stmt vals ?s1")
  from execute_rows_shape[OF e] have
    fr: "handle s2 = handle s \<and> stdout s2 = stdout s" and
    sh: "(r = Inr () \<and> calls s2 = calls s @ Connect ?cs None #
              map (\<lambda>row. Execute stmt (Some row) None) vals)
      \<or> (\<exists>k e. k < length vals \<and> r = Inl e \<and>
            calls s2 = calls s @ Connect ?cs None #
              map (\<lambda>row. Execute stmt (Some row) None) (take k vals)
                        @ [Execute stmt (Some (vals ! k)) (Some e)])"
    by (simp_all add: emit_def)
  from assms e have ie: "iter_execute d stmt vals ''raise'' s =
      (r, emit (case r of Inl _ \<Rightarrow> ExitRollback | Inr _ \<Rightarrow> ExitCommit) s2)"
    by (simp add: iter_execute_def allow_method_def then_do_def conn_def outcome_def
        with_conn_def Let_def split: sum.splits)
  from sh show "\<exists>r s'. iter_execute d stmt vals ''raise'' s = (r, s') \<and>
            handle s' = handle s \<and> stdout s' = stdout s \<and>
            ((r = Inr () \<and>
              calls s' = calls s @ Connect ?cs None #
                 map (\<lambda>row. Execute stmt (Some row) None) vals @ [ExitCommit])
             \<or> (\<exists>k e. k < length vals \<and> r = Inl e \<and>
                  calls s' = calls s @ Connect ?cs None #
                    map (\<lambda>row. Execute stmt (Some row) None) (take k vals) @
                    [Execute stmt (Some (vals ! k)) (Some e), ExitRollback]))"
  proof
    assume "r = Inr () \<and> calls s2 = calls s @ Connect ?cs None #
              map (\<lambda>row. Execute stmt (Some row) None) vals"
    with ie fr show ?thesis by (simp add: emit_def)
  next
    assume "\<exists>k e. k < length vals \<and> r = Inl e \<and>
            calls s2 = calls s @ Connect ?cs None #
              map (\<lambda>row. Execute stmt (Some row) None) (take k vals)
                        @ [Execute stmt (Some (vals ! k)) (Some e)]"
    then obtain k e where "k < length vals" "r = Inl e"
      "calls s2 = calls s @ Connect ?cs None #
              map (\<lambda>row. Execute stmt (Some row) None) (take k vals)
                        @ [Execute stmt (Some (vals ! k)) (Some e)]"
      by blast
    with ie fr show ?thesis by (simp add: emit_def) blast
  qed
next
  let ?cs = "connection_string (handle s)"
  let ?s1 = "emit (Connect ?cs None) s"
  assume "\<forall>l. drv_commit d l = None"
  then have "\<And>l. drv_commit d l = None" by simp
  from execute_rows_ignore_shape[OF this, of vals stmt ?s1] obtain replies where
    l: "length replies = length vals" and
    e: "execute_rows_ignore d stmt vals ?s1 =
       (Inr (),
        ?s1\<lparr>calls := calls ?s1 @ concat (map2 (\<lambda>row reply. Execute stmt (Some row) reply #
                        (case reply of None \<Rightarrow> [Commit None] | Some e \<Rightarrow> [])) vals replies),
          stdout := stdout ?s1 @ concat (map2 (\<lambda>row reply. case reply of None \<Rightarrow> []
                        | Some e \<Rightarrow> [OutStr [], OutExn e, OutRow row, OutStr []]) vals replies)\<rparr>)"
    by blast
  from assms e have "iter_execute d stmt vals ''ignore'' s =
                 (Inr (),
                  s\<lparr>calls := calls s @ Connect ?cs None #
                       concat (map2 (\<lambda>row reply. Execute stmt (Some row) reply #
                          (case reply of None \<Rightarrow> [Commit None] | Some e \<Rightarrow> [])) vals replies) @
                       [ExitCommit],
                    stdout := stdout s @
                       concat (map2 (\<lambda>row reply. case reply of None \<Rightarrow> []
                          | Some e \<Rightarrow> [OutStr [], OutExn e, OutRow row, OutStr []])
                          vals replies)\<rparr>)"
    by (simp add: iter_execute_def allow_method_def then_do_def conn_def outcome_def
        with_conn_def Let_def emit_def)
  with l show "\<exists>replies. length replies = length vals \<and>
               iter_execute d stmt vals ''ignore'' s =
                 (Inr (),
                  s\<lparr>calls := calls s @ Connect ?cs None #
                       concat (map2 (\<lambda>row reply. Execute stmt (Some row) reply #
                          (case reply of None \<Rightarrow> [Commit None] | Some e \<Rightarrow> [])) vals replies) @
                       [ExitCommit],
                    stdout := stdout s @
                       concat (map2 (\<lambda>row reply. case reply of None \<Rightarrow> []
                          | Some e \<Rightarrow> [OutStr [], OutExn e, OutRow row, OutStr []])
                          vals replies)\<rparr>)"
    by blast
qed


theorem iter_execute_modes_witness:
  "\<not> read_only (handle writable)
   \<and> CHR ''?'' \<in> set ''INSERT INTO USERS (ID, Name) VALUES (?, ?);''
   \<and> drv_connect sample_driver (calls writable) (connection_string (handle writable)) = None
   \<and> (\<forall>l. drv_commit sample_driver l = None)
   \<and> iter_execute sample_driver ''INSERT INTO USERS (ID, Name) VALUES (?, ?);''
        [[Val 1, Str ''Mary''], [Val 2, Str ''Bob''], [Val 3, Str ''Bill'']] ''raise'' writable =
       (Inl (DriverError ''duplicate key''),
        writable\<lparr>calls :=
          [Connect ''DSN=dev'' None,
           Execute ''INSERT INTO USERS (ID, Name) VALUES (?, ?);'' (Some [Val 1, Str ''Mary'']) None,
           Execute ''INSERT INTO USERS (ID, Name) VALUES (?, ?);'' (Some [Val 2, Str ''Bob''])
             (Some (DriverError ''duplicate key'')),
           ExitRollback]\<rparr>)
   \<and> iter_execute sample_driver ''INSERT INTO USERS (ID, Name) VALUES (?, ?);''
        [[Val 1, Str ''Mary''], [Val 2, Str ''Bob''], [Val 3, Str ''Bill'']] ''ignore'' writable =
       (Inr (),
        writable\<lparr>calls :=
          [Connect ''DSN=dev'' None,
           Execute ''INSERT INTO USERS (ID, Name) VALUES (?, ?);'' (Some [Val 1, Str ''Mary'']) None,
           Commit None,
           Execute ''INSERT INTO USERS (ID, Name) VALUES (?, ?);'' (Some [Val 2, Str ''Bob''])
             (Some (DriverError ''duplicate key'')),
           Execute ''INSERT INTO USERS (ID, Name) VALUES (?, ?);'' (Some [Val 3, Str ''Bill'']) None,
           Commit None,
           ExitCommit],
          stdout :=
          [OutStr [], OutExn (DriverError ''duplicate key''), OutRow [Val 2, Str ''Bob''],
           OutStr []]\<rparr>)"
proof -
  have h1: "\<not> read_only (handle writable)"
    by (simp add: writable_def SQLPyodbcHandler_def)
  have h2: "CHR ''?'' \<in> set ''INSERT INTO USERS (ID, Name) VALUES (?, ?);''"
    by simp
  have h3: "drv_connect sample_driver (calls writable) (connection_string (handle writable)) = None"
    by (simp add: sample_driver_def)
  have h4: "\<forall>l. drv_commit sample_driver l = None"
    by (simp add: sample_driver_def)
  from iter_execute_modes [OF h1 h2 h3,
      of "[[Val 1, Str ''Mary''], [Val 2, Str ''Bob''], [Val 3, Str ''Bill'']]"] h1 h2 h3 h4
  show ?thesis
    by (simp add: iter_execute_def allow_method_def then_do_def conn_def outcome_def
        with_conn_def Let_def emit_def print_out_def writable_def sample_driver_def
        SQLPyodbcHandler_def cursor_execute_def cursor_commit_def ret_def)
qed

section \<open>Queries\<close>

text \<open>
  Claim C5. \<^verbatim>\<open>query\<close> is not under the guard: on any handle, read-only or not, it
  opens a connection and runs the statement. It leaves the handle (connection string and
  read-only flag) and the output as they were, its result does not depend on the
  read-only flag, and what it returns is a data frame when \<^verbatim>\<open>pandas_dataframe\<close> is
  omitted or true and a list of tuples when it is false: when the driver raises nothing it returns
  the frame of \<^verbatim>\<open>read_sql\<close>, respectively the rows of \<^verbatim>\<open>fetchall\<close>, and the block
  commits on exit.
\<close>

theorem query_frame:
  "handle (snd (query d stmt ps flag kw s)) = handle s
   \<and> stdout (snd (query d stmt ps flag kw s)) = stdout s
   \<and> (\<forall>t. fst (query d stmt ps flag kw s) = Inr t \<longrightarrow>
          (case t of DataFrame f \<Rightarrow> flag \<noteq> Some False | Tuples rs \<Rightarrow> flag = Some False))
   \<and> fst (query d stmt ps flag kw (s\<lparr>handle := (handle s)\<lparr>read_only := b\<rparr>\<rparr>)) =
       fst (query d stmt ps flag kw s)
   \<and> (flag \<noteq> Some False
        \<and> drv_connect d (calls s) (connection_string (handle s)) = None
        \<and> drv_read_sql d (calls s @ [Connect (connection_string (handle s)) None]) stmt ps kw = Inr f
      \<longrightarrow> query d stmt ps flag kw s =
            (Inr (DataFrame f),
             s\<lparr>calls := calls s @ [Connect (connection_string (handle s)) None,
                                   ReadSql stmt ps kw None, ExitCommit]\<rparr>))
   \<and> (flag = Some False
        \<and> drv_connect d (calls s) (connection_string (handle s)) = None
        \<and> drv_execute d (calls s @ [Connect (connection_string (handle s)) None]) stmt ps = None
        \<and> drv_fetchall d (calls s @ [Connect (connection_string (handle s)) None,
                                       Execute stmt ps None]) = Inr rs
      \<longrightarrow> query d stmt ps flag kw s =
            (Inr (Tuples rs),
             s\<lparr>calls := calls s @ [Connect (connection_string (handle s)) None,
                                   Execute stmt ps None, FetchAll None, ExitCommit]\<rparr>))"
proof (cases flag)
  case None
  then show ?thesis
    by (simp add: query_def then_do_def conn_def with_conn_def read_sql_def outcome_def
        emit_def ret_def Let_def split: option.splits sum.splits)
next
  case (Some b)
  then show ?thesis
    by (cases b)
      (simp_all add: query_def then_do_def conn_def with_conn_def read_sql_def
        cursor_execute_def cursor_fetchall_def outcome_def emit_def ret_def Let_def
        split: option.splits sum.splits)
qed

theorem query_frame_witness:
  "handle (snd (query sample_driver ''SELECT * FROM USERS;'' None None [] readonly)) =
     handle readonly
   \<and> query sample_driver ''SELECT * FROM USERS;'' None None [] readonly =
       (Inr (DataFrame sample_frame),
        readonly\<lparr>calls := [Connect ''DSN=prod'' None,
                            ReadSql ''SELECT * FROM USERS;'' None [] None, ExitCommit]\<rparr>)
   \<and> query sample_driver ''SELECT * FROM USERS;'' None (Some False) [] writable =
       (Inr (Tuples [[Val 1, Str ''Mary''], [NaN, Str ''Bob''], [Val 3, PyNone]]),
        writable\<lparr>calls := [Connect ''DSN=dev'' None,
                            Execute ''SELECT * FROM USERS;'' None None, FetchAll None,
                            ExitCommit]\<rparr>)"
  using query_frame [where d = sample_driver and stmt = "''SELECT * FROM USERS;''"
      and ps = None and flag = None and kw = "[]" and s = readonly and f = sample_frame]
    query_frame [where d = sample_driver and stmt = "''SELECT * FROM USERS;''"
      and ps = None and flag = "Some False" and kw = "[]" and s = writable
      and rs = "rows sample_frame"]
  by (simp add: sample_driver_def sample_frame_def readonly_def writable_def
      SQLPyodbcHandler_def)

section \<open>Bulk insert\<close>

text \<open>
  A frame with an object column is listed as it is. What one call of
  \<^verbatim>\<open>_insert_values\<close> on a writable handle adds to the log: at most one pass,
  carrying the listed rows of its frame, and exactly that pass when the rows are not
  empty and nothing raised.
\<close>

lemma values_tolist_length: "length (values_tolist d df) = length (rows df)"
  by (simp add: values_tolist_def Let_def)

lemma values_tolist_Nil: "(values_tolist d df = []) = (rows df = [])"
  using values_tolist_length[of d df] by (metis length_0_conv)

lemma common_dtype_Object:
  assumes "Object \<in> set ts"
  shows "common_dtype ts = Object"
proof (cases ts)
  case Nil
  with assms show ?thesis by simp
next
  case (Cons t ts')
  show ?thesis
  proof (cases "list_all (\<lambda>u. u = t) ts")
    case True
    with assms have "t = Object"
      by (auto simp: list_all_iff)
    with True Cons show ?thesis
      by (simp add: common_dtype_def)
  next
    case False
    from assms have "\<not> list_all (\<lambda>u. u = Int64 \<or> u = Float64) ts"
      by (auto simp: list_all_iff)
    with False Cons show ?thesis
      by (simp add: common_dtype_def)
  qed
qed

lemma values_tolist_object:
  "Object \<in> snd ` set (columns df) \<Longrightarrow> values_tolist d df = rows df"
  by (simp add: values_tolist_def common_dtype_Object)

lemma passes_append: "passes (xs @ ys) = passes xs @ passes ys"
  by (induction xs rule: passes.induct) simp_all

lemma insert_values_writable:
  assumes "\<not> read_only (handle s)"
  shows "\<exists>r s' new. insert_values d df t i s = (r, s') \<and> calls s' = calls s @ new
     \<and> handle s' = handle s
     \<and> prefix (passes new) (filter (\<lambda>p. p \<noteq> []) [values_tolist d df])
     \<and> (r = Inr () \<longrightarrow> passes new = filter (\<lambda>p. p \<noteq> []) [values_tolist d df])"
  using assms
  by (simp add: insert_values_def allow_method_def then_do_def conn_def with_conn_def
      cursor_executemany_def cursor_commit_def outcome_def emit_def ret_def
      Let_def split: option.splits)

lemma one_pass:
  assumes "\<not> read_only (handle s)"
  shows "prefix (passes (issued s (snd (insert_values d df t i s)))) (filter (\<lambda>p. p \<noteq> []) [values_tolist d df])
     \<and> (fst (insert_values d df t i s) = Inr () \<longrightarrow>
          passes (issued s (snd (insert_values d df t i s))) = filter (\<lambda>p. p \<noteq> []) [values_tolist d df])"
proof -
  from insert_values_writable[OF assms, of d df t i] obtain r s' new where
    "insert_values d df t i s = (r, s')" "calls s' = calls s @ new"
    "prefix (passes new) (filter (\<lambda>p. p \<noteq> []) [values_tolist d df])"
    "r = Inr () \<longrightarrow> passes new = filter (\<lambda>p. p \<noteq> []) [values_tolist d df]"
    by blast
  then show ?thesis by (simp add: issued_def)
qed

lemma two_passes:
  assumes "\<not> read_only (handle s)"
  shows "prefix (passes (issued s (snd (then_do (insert_values d a t i) (\<lambda>_. insert_values d b t i) s))))
           (filter (\<lambda>p. p \<noteq> []) [values_tolist d a, values_tolist d b])
     \<and> (fst (then_do (insert_values d a t i) (\<lambda>_. insert_values d b t i) s) = Inr () \<longrightarrow>
          passes (issued s (snd (then_do (insert_values d a t i) (\<lambda>_. insert_values d b t i) s)))
          = filter (\<lambda>p. p \<noteq> []) [values_tolist d a, values_tolist d b])"
proof -
  let ?P = "\<lambda>p::'a cell list list. p \<noteq> []"
  have split2: "filter ?P [values_tolist d a, values_tolist d b] = filter ?P [values_tolist d a] @ filter ?P [values_tolist d b]"
    by simp
  from insert_values_writable[OF assms, of d a t i] obtain r1 s1 new1 where
    1: "insert_values d a t i s = (r1, s1)" "calls s1 = calls s @ new1" "handle s1 = handle s"
       "prefix (passes new1) (filter ?P [values_tolist d a])"
       "r1 = Inr () \<longrightarrow> passes new1 = filter ?P [values_tolist d a]"
    by blast
  show ?thesis
  proof (cases r1)
    case (Inl e)
    with 1 have "then_do (insert_values d a t i) (\<lambda>_. insert_values d b t i) s = (Inl e, s1)"
      by (simp add: then_do_def)
    moreover from 1 have "issued s s1 = new1" by (simp add: issued_def)
    moreover from 1(4) have "prefix (passes new1) (filter ?P [values_tolist d a] @ filter ?P [values_tolist d b])"
      by (rule prefix_prefix)
    ultimately show ?thesis unfolding split2 by simp
  next
    case (Inr u)
    from 1(3) assms have "\<not> read_only (handle s1)" by simp
    from insert_values_writable[OF this, of d b t i] obtain r2 s2 new2 where
      2: "insert_values d b t i s1 = (r2, s2)" "calls s2 = calls s1 @ new2"
         "prefix (passes new2) (filter ?P [values_tolist d b])"
         "r2 = Inr () \<longrightarrow> passes new2 = filter ?P [values_tolist d b]"
      by blast
    from 1 2 Inr have "then_do (insert_values d a t i) (\<lambda>_. insert_values d b t i) s = (r2, s2)"
      by (simp add: then_do_def)
    moreover from 1 2 have "issued s s2 = new1 @ new2" by (simp add: issued_def)
    moreover from 1(5) Inr have "passes new1 = filter ?P [values_tolist d a]" by simp
    ultimately show ?thesis
      unfolding split2 using 2(3) 2(4) by (simp add: passes_append)
  qed
qed

lemma insert_values_log:
  "\<exists>new. calls (snd (insert_values d df t i s)) = calls s @ new
     \<and> handle (snd (insert_values d df t i s)) = handle s
     \<and> (rows df = [] \<longrightarrow> new = [] \<and> fst (insert_values d df t i s) = Inr ())
     \<and> (read_only (handle s) \<longrightarrow> new = [] \<and> fst (insert_values d df t i s) = Inr ())
     \<and> (fst (insert_values d df t i s) \<noteq> Inr () \<longrightarrow> passes new = [] \<or> passes new = [values_tolist d df])
     \<and> (fst (insert_values d df t i s) = Inr () \<and> \<not> read_only (handle s) \<and> rows df \<noteq> []
          \<longrightarrow> passes new = [values_tolist d df])"
  by (simp add: insert_values_def allow_method_def then_do_def conn_def with_conn_def
      cursor_executemany_def cursor_commit_def outcome_def emit_def print_out_def ret_def
      values_tolist_Nil Let_def split: option.splits)

lemma positions_bound: "positions c names = [j] \<Longrightarrow> j < length names"
proof -
  assume "positions c names = [j]"
  then have "j \<in> set (filter (\<lambda>j. names ! j = c) [0..<length names])"
    by (simp add: positions_def)
  then show ?thesis by simp
qed

lemma star_cell:
  assumes "wf_frame df" and "i < length (rows df)" and "j < length (columns df)"
  shows "map (map (\<lambda>c. if isna c then PyNone else c))
           (map (\<lambda>r. map2 (\<lambda>(name, t) c. if t = Object \<and> isna c then Str [] else c)
                        (columns df) r) (rows df)) ! i ! j =
         (if isna (rows df ! i ! j)
          then (if snd (columns df ! j) = Object then Str [] else PyNone)
          else rows df ! i ! j)"
proof -
  from assms(1,2) have l: "length (rows df ! i) = length (columns df)"
    by (simp add: wf_frame_def list_all_length)
  with assms(2,3) show ?thesis
    by (cases "columns df ! j") simp
qed

lemma star_row_length:
  assumes "wf_frame df" and "i < length (rows df)"
  shows "length (map (map (\<lambda>c. if isna c then PyNone else c))
           (map (\<lambda>r. map2 (\<lambda>(name, t) c. if t = Object \<and> isna c then Str [] else c)
                        (columns df) r) (rows df)) ! i) = length (columns df)"
  using assms by (simp add: wf_frame_def list_all_length)


text \<open>
  Claim C3. On a writable handle, with \<^verbatim>\<open>handle_nulls\<close> the label of one column of
  the frame (at position \<open>j\<close>) and \<^verbatim>\<open>remove_nulls\<close> not set, \<^verbatim>\<open>bulk_insert\<close> splits
  the rows into those with a value in that column and those with a missing one, in the
  order of the input; the first part keeps the dtypes of the frame; the second part has
  \<^verbatim>\<open>None\<close> in that column, which is an object column from then on, so that its rows
  are listed as they are held; the two parts before that overwrite are, as multisets, the
  input rows. The inserts are \<^verbatim>\<open>_insert_values\<close> on the first part, then on the
  second: the passes issued are a prefix of the non-empty parts, as listed, in that order
  (so at most two), and all of them when nothing raised.
\<close>

theorem bulk_insert_named_column:
  assumes "\<not> read_only (handle s)"
    and "handle_nulls kw = Some column"
    and "column \<noteq> ''*''"
    and "positions column (map fst (columns df)) = [j]"
    and "remove_nulls kw \<noteq> Some True"
  shows "\<exists>vals nulls.
       separate_nulls df column = Inr (vals, nulls)
     \<and> columns vals = columns df
     \<and> columns nulls = (columns df)[j := (column, Object)]
     \<and> map fst (columns nulls) = map fst (columns df)
     \<and> rows vals = filter (\<lambda>r. \<not> isna (r ! j)) (rows df)
     \<and> rows nulls = map (\<lambda>r. r[j := PyNone]) (filter (\<lambda>r. isna (r ! j)) (rows df))
     \<and> (wf_frame df \<longrightarrow> (\<forall>r \<in> set (rows nulls). r ! j = PyNone))
     \<and> mset (rows vals) + mset (filter (\<lambda>r. isna (r ! j)) (rows df)) = mset (rows df)
     \<and> length (rows vals) + length (rows nulls) = length (rows df)
     \<and> values_tolist d nulls = rows nulls
     \<and> bulk_insert d df t kw s =
         then_do (insert_values d vals t (identity_insert_on kw = Some True))
           (\<lambda>_. insert_values d nulls t (identity_insert_on kw = Some True)) s
     \<and> prefix (passes (issued s (snd (bulk_insert d df t kw s))))
         (filter (\<lambda>p. p \<noteq> []) [values_tolist d vals, rows nulls])
     \<and> (fst (bulk_insert d df t kw s) = Inr () \<longrightarrow>
          passes (issued s (snd (bulk_insert d df t kw s))) =
          filter (\<lambda>p. p \<noteq> []) [values_tolist d vals, rows nulls])"
proof -
  let ?vals = "df\<lparr>rows := filter (\<lambda>r. \<not> isna (r ! j)) (rows df)\<rparr>"
  let ?nulls = "df\<lparr>columns := (columns df)[j := (column, Object)],
                   rows := map (\<lambda>r. r[j := PyNone]) (filter (\<lambda>r. isna (r ! j)) (rows df))\<rparr>"
  let ?i = "identity_insert_on kw = Some True"
  from assms(4) have sep: "separate_nulls df column = Inr (?vals, ?nulls)"
    by (simp add: separate_nulls_def)
  from positions_bound[OF assms(4)] have jb: "j < length (columns df)" by simp
  from assms(4) have "j \<in> set (positions column (map fst (columns df)))" by simp
  then have nm: "fst (columns df ! j) = column"
    by (auto simp: positions_def)
  have c1: "columns ?vals = columns df" by simp
  have c2: "columns ?nulls = (columns df)[j := (column, Object)]" by simp
  have c3: "map fst (columns ?nulls) = map fst (columns df)"
    using jb nm by (simp add: map_update list_update_same_conv)
  have wf: "wf_frame df \<longrightarrow> (\<forall>r \<in> set (rows ?nulls). r ! j = PyNone)"
    using jb by (auto simp: wf_frame_def list_all_iff)
  have part: "mset (rows ?vals) + mset (filter (\<lambda>r. isna (r ! j)) (rows df)) = mset (rows df)"
    by (simp add: add.commute)
  have len: "length (rows ?vals) + length (rows ?nulls) = length (rows df)"
    using sum_length_filter_compl[of "\<lambda>r. isna (r ! j)" "rows df"] by simp
  from jb have "(column, Object) \<in> set ((columns df)[j := (column, Object)])"
    by (rule set_update_memI)
  then have "Object \<in> snd ` set (columns ?nulls)"
    by force
  then have lst: "values_tolist d ?nulls = rows ?nulls"
    by (rule values_tolist_object)
  have ident: "(case identity_insert_on kw of None \<Rightarrow> False | Some b \<Rightarrow> b) = ?i"
    by (simp split: option.splits)
  from assms(5) have rm: "(case remove_nulls kw of None \<Rightarrow> False | Some b \<Rightarrow> b) = False"
    by (cases "remove_nulls kw") auto
  from assms(1,2,3) sep have bi: "bulk_insert d df t kw s =
      then_do (insert_values d ?vals t ?i) (\<lambda>_. insert_values d ?nulls t ?i) s"
    unfolding bulk_insert_def allow_method_def bulk_insert_body_def Let_def ident rm
    by simp
  from two_passes[OF assms(1), of d ?vals t ?i ?nulls]
  have tp: "prefix (passes (issued s (snd (bulk_insert d df t kw s))))
         (filter (\<lambda>p. p \<noteq> []) [values_tolist d ?vals, rows ?nulls])
     \<and> (fst (bulk_insert d df t kw s) = Inr () \<longrightarrow>
          passes (issued s (snd (bulk_insert d df t kw s))) =
          filter (\<lambda>p. p \<noteq> []) [values_tolist d ?vals, rows ?nulls])"
    unfolding bi lst by simp
  from tp bi sep c1 c2 c3 wf part len lst
  show ?thesis by (intro exI[of _ ?vals] exI[of _ ?nulls]) simp
qed

theorem bulk_insert_named_column_witness:
  "\<not> read_only (handle writable)
   \<and> ''Score'' \<noteq> ''*''
   \<and> positions ''Score'' (map fst (columns numeric_frame)) = [1]
   \<and> bulk_insert sample_driver numeric_frame ''USERS''
        \<lparr>remove_nulls = None, handle_nulls = Some ''Score'', identity_insert_on = None\<rparr>
        writable =
       (Inr (),
        writable\<lparr>calls :=
          [Connect ''DSN=dev'' None,
           ExecuteMany ''INSERT INTO USERS (ID,Score) VALUES (?,?);''
             [[Val 2, Val 5]] None,
           Commit None, ExitCommit,
           Connect ''DSN=dev'' None,
           ExecuteMany ''INSERT INTO USERS (ID,Score) VALUES (?,?);''
             [[Val 9007199254740993, PyNone]] None,
           Commit None, ExitCommit]\<rparr>)
   \<and> bulk_insert sample_driver numeric_frame ''USERS''
        \<lparr>remove_nulls = None, handle_nulls = Some ''ID'', identity_insert_on = None\<rparr>
        writable =
       (Inr (),
        writable\<lparr>calls :=
          [Connect ''DSN=dev'' None,
           ExecuteMany ''INSERT INTO USERS (ID,Score) VALUES (?,?);''
             [[Val 9007199254740992, NaN], [Val 2, Val 5]] None,
           Commit None, ExitCommit]\<rparr>)"
proof -
  let ?kw = "\<lparr>remove_nulls = None, handle_nulls = Some ''Score'',
      identity_insert_on = None\<rparr>"
  let ?kw' = "\<lparr>remove_nulls = None, handle_nulls = Some ''ID'',
      identity_insert_on = None\<rparr>"
  have h1: "\<not> read_only (handle writable)"
    by (simp add: writable_def SQLPyodbcHandler_def)
  have h2: "handle_nulls ?kw = Some ''Score''"
    by simp
  have h3: "''Score'' \<noteq> ''*''"
    by simp
  have h4: "positions ''Score'' (map fst (columns numeric_frame)) = [1]"
    by (simp add: positions_def numeric_frame_def upt_rec)
  have h5: "remove_nulls ?kw \<noteq> Some True"
    by simp
  have h2': "handle_nulls ?kw' = Some ''ID''"
    by simp
  have h3': "''ID'' \<noteq> ''*''"
    by simp
  have h4': "positions ''ID'' (map fst (columns numeric_frame)) = [0]"
    by (simp add: positions_def numeric_frame_def upt_rec)
  have h5': "remove_nulls ?kw' \<noteq> Some True"
    by simp
  have sep: "separate_nulls numeric_frame ''Score'' =
      Inr (numeric_frame\<lparr>rows := [[Val 2, Val 5]]\<rparr>,
           \<lparr>columns = [(''ID'', Int64), (''Score'', Object)],
            rows = [[Val 9007199254740993, PyNone]]\<rparr>)"
    by (simp add: separate_nulls_def h4) (simp add: numeric_frame_def)
  have sep': "separate_nulls numeric_frame ''ID'' =
      Inr (numeric_frame,
           \<lparr>columns = [(''ID'', Object), (''Score'', Float64)], rows = []\<rparr>)"
    by (simp add: separate_nulls_def h4') (simp add: numeric_frame_def)
  from bulk_insert_named_column [OF h1 h2 h3 h4 h5, of sample_driver "''USERS''"] sep
  have "bulk_insert sample_driver numeric_frame ''USERS'' ?kw writable =
      then_do (insert_values sample_driver (numeric_frame\<lparr>rows := [[Val 2, Val 5]]\<rparr>)
                 ''USERS'' False)
        (\<lambda>_. insert_values sample_driver
           \<lparr>columns = [(''ID'', Int64), (''Score'', Object)],
            rows = [[Val 9007199254740993, PyNone]]\<rparr> ''USERS'' False) writable"
    by simp
  then have a: "bulk_insert sample_driver numeric_frame ''USERS'' ?kw writable =
       (Inr (),
        writable\<lparr>calls :=
          [Connect ''DSN=dev'' None,
           ExecuteMany ''INSERT INTO USERS (ID,Score) VALUES (?,?);''
             [[Val 2, Val 5]] None,
           Commit None, ExitCommit,
           Connect ''DSN=dev'' None,
           ExecuteMany ''INSERT INTO USERS (ID,Score) VALUES (?,?);''
             [[Val 9007199254740993, PyNone]] None,
           Commit None, ExitCommit]\<rparr>)"
    by (simp add: then_do_def insert_values_def allow_method_def conn_def with_conn_def
        cursor_executemany_def cursor_commit_def outcome_def emit_def ret_def Let_def
        sql_insert_statement_def values_tolist_def common_dtype_def numeric_frame_def
        sample_driver_def writable_def SQLPyodbcHandler_def)
  from bulk_insert_named_column [OF h1 h2' h3' h4' h5', of sample_driver "''USERS''"] sep'
  have "bulk_insert sample_driver numeric_frame ''USERS'' ?kw' writable =
      then_do (insert_values sample_driver numeric_frame ''USERS'' False)
        (\<lambda>_. insert_values sample_driver
           \<lparr>columns = [(''ID'', Object), (''Score'', Float64)], rows = []\<rparr>
           ''USERS'' False) writable"
    by simp
  then have b: "bulk_insert sample_driver numeric_frame ''USERS'' ?kw' writable =
       (Inr (),
        writable\<lparr>calls :=
          [Connect ''DSN=dev'' None,
           ExecuteMany ''INSERT INTO USERS (ID,Score) VALUES (?,?);''
             [[Val 9007199254740992, NaN], [Val 2, Val 5]] None,
           Commit None, ExitCommit]\<rparr>)"
    by (simp add: then_do_def insert_values_def allow_method_def conn_def with_conn_def
        cursor_executemany_def cursor_commit_def outcome_def emit_def ret_def Let_def
        sql_insert_statement_def values_tolist_def common_dtype_def numeric_frame_def
        sample_driver_def writable_def SQLPyodbcHandler_def)
  from h1 h3 h4 a b show ?thesis
    by blast
qed

text \<open>
  Claim C4. On a writable handle, with \<^verbatim>\<open>handle_nulls='*'\<close> (and \<^verbatim>\<open>remove_nulls\<close>
  not set, on a frame with distinct labels) \<^verbatim>\<open>bulk_insert\<close> is one call of
  \<^verbatim>\<open>_insert_values\<close> on a frame with the same labels, all of them object columns, and
  as many rows, in which every missing cell of an object column of the input is the empty
  string, every other missing cell is \<^verbatim>\<open>None\<close>, and every other cell is the cell the
  input frame holds; that frame is listed as it is: at most one pass, with all its rows.
  With \<^verbatim>\<open>remove_nulls=True\<close> the call is the call on the frame without the rows that
  have a missing cell, whatever \<^verbatim>\<open>handle_nulls\<close> is; with no \<^verbatim>\<open>handle_nulls\<close> that
  is one call of \<^verbatim>\<open>_insert_values\<close> on the remaining rows, listed from the array of the
  frame.
\<close>

theorem bulk_insert_star_and_dropna:
  assumes "\<not> read_only (handle s)"
  shows "(handle_nulls kw = Some ''*'' \<and> remove_nulls kw \<noteq> Some True
            \<and> distinct (map fst (columns df)) \<and> wf_frame df \<longrightarrow>
          (\<exists>df'. bulk_insert d df t kw s =
                    insert_values d df' t (identity_insert_on kw = Some True) s
             \<and> columns df' = map (\<lambda>(name, t). (name, Object)) (columns df)
             \<and> map fst (columns df') = map fst (columns df)
             \<and> length (rows df') = length (rows df)
             \<and> (\<forall>i<length (rows df). length (rows df' ! i) = length (columns df)
                  \<and> (\<forall>j<length (columns df).
                   rows df' ! i ! j =
                     (if isna (rows df ! i ! j)
                      then (if snd (columns df ! j) = Object then Str [] else PyNone)
                      else rows df ! i ! j)))
             \<and> values_tolist d df' = rows df'
             \<and> prefix (passes (issued s (snd (bulk_insert d df t kw s))))
                  (filter (\<lambda>p. p \<noteq> []) [rows df'])
             \<and> (fst (bulk_insert d df t kw s) = Inr () \<longrightarrow>
                  passes (issued s (snd (bulk_insert d df t kw s))) =
                  filter (\<lambda>p. p \<noteq> []) [rows df'])))
       \<and> (remove_nulls kw = Some True \<longrightarrow>
            bulk_insert d df t kw s = bulk_insert d (dropna df) t (kw\<lparr>remove_nulls := None\<rparr>) s
          \<and> columns (dropna df) = columns df
          \<and> rows (dropna df) = filter (\<lambda>r. \<forall>c \<in> set r. \<not> isna c) (rows df)
          \<and> (handle_nulls kw = None \<longrightarrow>
               bulk_insert d df t kw s =
                 insert_values d (dropna df) t (identity_insert_on kw = Some True) s
             \<and> prefix (passes (issued s (snd (bulk_insert d df t kw s))))
                  (filter (\<lambda>p. p \<noteq> []) [values_tolist d (dropna df)])
             \<and> (fst (bulk_insert d df t kw s) = Inr () \<longrightarrow>
                  passes (issued s (snd (bulk_insert d df t kw s))) =
                  filter (\<lambda>p. p \<noteq> []) [values_tolist d (dropna df)])))"
proof (intro conjI impI)
  let ?i = "identity_insert_on kw = Some True"
  have ident: "(case identity_insert_on kw of None \<Rightarrow> False | Some b \<Rightarrow> b) = ?i"
    by (simp split: option.splits)
  assume a: "handle_nulls kw = Some ''*'' \<and> remove_nulls kw \<noteq> Some True
            \<and> distinct (map fst (columns df)) \<and> wf_frame df"
  then have rm: "(case remove_nulls kw of None \<Rightarrow> False | Some b \<Rightarrow> b) = False"
    by (cases "remove_nulls kw") auto
  let ?df1 = "df\<lparr>rows := map (\<lambda>r. map2 (\<lambda>(name, t) c. if t = Object \<and> isna c then Str [] else c)
                        (columns df) r) (rows df)\<rparr>"
  let ?df' = "nulls_to_None ?df1"
  from a have fill: "fillna_object_columns df = Inr ?df1"
    by (simp add: fillna_object_columns_def)
  from assms a fill have bi: "bulk_insert d df t kw s = insert_values d ?df' t ?i s"
    unfolding bulk_insert_def allow_method_def bulk_insert_body_def Let_def ident rm
    by simp
  have cols0: "columns ?df' = map (\<lambda>(name, t). (name, Object)) (columns df)"
    by (simp add: nulls_to_None_def)
  have cols: "map fst (columns ?df') = map fst (columns df)"
    by (simp add: nulls_to_None_def split_def)
  have len: "length (rows ?df') = length (rows df)"
    by (simp add: nulls_to_None_def)
  have cells: "\<forall>i<length (rows df). length (rows ?df' ! i) = length (columns df)
                  \<and> (\<forall>j<length (columns df).
                   rows ?df' ! i ! j =
                     (if isna (rows df ! i ! j)
                      then (if snd (columns df ! j) = Object then Str [] else PyNone)
                      else rows df ! i ! j))"
    using a star_cell[of df] star_row_length[of df] by (simp add: nulls_to_None_def)
  have lst: "values_tolist d ?df' = rows ?df'"
  proof (cases "columns df")
    case Nil
    then show ?thesis
      by (simp add: values_tolist_def nulls_to_None_def Let_def)
  next
    case (Cons c cs)
    then have "Object \<in> snd ` set (columns ?df')"
      by (cases c) (simp add: nulls_to_None_def)
    then show ?thesis
      by (rule values_tolist_object)
  qed
  from one_pass[OF assms, of d ?df' t ?i]
  have op: "prefix (passes (issued s (snd (bulk_insert d df t kw s))))
                  (filter (\<lambda>p. p \<noteq> []) [rows ?df'])
             \<and> (fst (bulk_insert d df t kw s) = Inr () \<longrightarrow>
                  passes (issued s (snd (bulk_insert d df t kw s))) =
                  filter (\<lambda>p. p \<noteq> []) [rows ?df'])"
    unfolding bi lst by simp
  from op bi cols0 cols len cells lst
  show "\<exists>df'. bulk_insert d df t kw s = insert_values d df' t ?i s
             \<and> columns df' = map (\<lambda>(name, t). (name, Object)) (columns df)
             \<and> map fst (columns df') = map fst (columns df)
             \<and> length (rows df') = length (rows df)
             \<and> (\<forall>i<length (rows df). length (rows df' ! i) = length (columns df)
                  \<and> (\<forall>j<length (columns df).
                   rows df' ! i ! j =
                     (if isna (rows df ! i ! j)
                      then (if snd (columns df ! j) = Object then Str [] else PyNone)
                      else rows df ! i ! j)))
             \<and> values_tolist d df' = rows df'
             \<and> prefix (passes (issued s (snd (bulk_insert d df t kw s))))
                  (filter (\<lambda>p. p \<noteq> []) [rows df'])
             \<and> (fst (bulk_insert d df t kw s) = Inr () \<longrightarrow>
                  passes (issued s (snd (bulk_insert d df t kw s))) =
                  filter (\<lambda>p. p \<noteq> []) [rows df'])"
    by (intro exI[of _ ?df']) simp
next
  assume "remove_nulls kw = Some True"
  then show "bulk_insert d df t kw s =
      bulk_insert d (dropna df) t (kw\<lparr>remove_nulls := None\<rparr>) s"
    by (simp add: bulk_insert_def bulk_insert_body_def allow_method_def)
next
  show "columns (dropna df) = columns df"
    by (simp add: dropna_def)
next
  show "rows (dropna df) = filter (\<lambda>r. \<forall>c \<in> set r. \<not> isna c) (rows df)"
    by (simp add: dropna_def list_ex_iff)
next
  let ?i = "identity_insert_on kw = Some True"
  have ident: "(case identity_insert_on kw of None \<Rightarrow> False | Some b \<Rightarrow> b) = ?i"
    by (simp split: option.splits)
  assume a: "remove_nulls kw = Some True" "handle_nulls kw = None"
  with assms show bi: "bulk_insert d df t kw s = insert_values d (dropna df) t ?i s"
    unfolding bulk_insert_def allow_method_def bulk_insert_body_def Let_def ident
    by simp
  from one_pass[OF assms, of d "dropna df" t ?i] bi
  show "prefix (passes (issued s (snd (bulk_insert d df t kw s))))
                  (filter (\<lambda>p. p \<noteq> []) [values_tolist d (dropna df)])"
    by simp
  assume "fst (bulk_insert d df t kw s) = Inr ()"
  with one_pass[OF assms, of d "dropna df" t ?i] bi
  show "passes (issued s (snd (bulk_insert d df t kw s))) =
                  filter (\<lambda>p. p \<noteq> []) [values_tolist d (dropna df)]"
    by simp
qed

theorem bulk_insert_star_and_dropna_witness:
  "\<not> read_only (handle writable)
   \<and> distinct (map fst (columns sample_frame)) \<and> wf_frame sample_frame
   \<and> distinct (map fst (columns numeric_frame)) \<and> wf_frame numeric_frame
   \<and> bulk_insert sample_driver sample_frame ''USERS''
        \<lparr>remove_nulls = None, handle_nulls = Some ''*'', identity_insert_on = None\<rparr>
        writable =
       (Inr (),
        writable\<lparr>calls :=
          [Connect ''DSN=dev'' None,
           ExecuteMany ''INSERT INTO USERS (ID,Name) VALUES (?,?);''
             [[Val 1, Str ''Mary''], [PyNone, Str ''Bob''], [Val 3, Str []]] None,
           Commit None, ExitCommit]\<rparr>)
   \<and> bulk_insert sample_driver numeric_frame ''USERS''
        \<lparr>remove_nulls = None, handle_nulls = Some ''*'', identity_insert_on = None\<rparr>
        writable =
       (Inr (),
        writable\<lparr>calls :=
          [Connect ''DSN=dev'' None,
           ExecuteMany ''INSERT INTO USERS (ID,Score) VALUES (?,?);''
             [[Val 9007199254740993, PyNone], [Val 2, Val 5]] None,
           Commit None, ExitCommit]\<rparr>)
   \<and> bulk_insert sample_driver sample_frame ''USERS''
        \<lparr>remove_nulls = Some True, handle_nulls = None, identity_insert_on = None\<rparr>
        writable =
       (Inr (),
        writable\<lparr>calls :=
          [Connect ''DSN=dev'' None,
           ExecuteMany ''INSERT INTO USERS (ID,Name) VALUES (?,?);''
             [[Val 1, Str ''Mary'']] None,
           Commit None, ExitCommit]\<rparr>)"
proof -
  let ?star = "\<lparr>remove_nulls = None, handle_nulls = Some ''*'', identity_insert_on = None\<rparr>"
  let ?drop = "\<lparr>remove_nulls = Some True, handle_nulls = None, identity_insert_on = None\<rparr>"
  have h1: "\<not> read_only (handle writable)"
    by (simp add: writable_def SQLPyodbcHandler_def)
  have h2: "distinct (map fst (columns sample_frame)) \<and> wf_frame sample_frame"
    by (simp add: sample_frame_def wf_frame_def)
  have h3: "distinct (map fst (columns numeric_frame)) \<and> wf_frame numeric_frame"
    by (simp add: numeric_frame_def wf_frame_def)
  note t1 = bulk_insert_star_and_dropna [OF h1, of ?star sample_frame sample_driver "''USERS''"]
  note t2 = bulk_insert_star_and_dropna [OF h1, of ?drop sample_frame sample_driver "''USERS''"]
  have a: "bulk_insert sample_driver sample_frame ''USERS'' ?star writable =
       (Inr (),
        writable\<lparr>calls :=
          [Connect ''DSN=dev'' None,
           ExecuteMany ''INSERT INTO USERS (ID,Name) VALUES (?,?);''
             [[Val 1, Str ''Mary''], [PyNone, Str ''Bob''], [Val 3, Str []]] None,
           Commit None, ExitCommit]\<rparr>)"
    using t1
    by (simp add: insert_values_def allow_method_def then_do_def conn_def with_conn_def
        cursor_executemany_def cursor_commit_def outcome_def emit_def ret_def Let_def
        sql_insert_statement_def values_tolist_def common_dtype_def sample_frame_def
        sample_driver_def writable_def SQLPyodbcHandler_def bulk_insert_def
        bulk_insert_body_def fillna_object_columns_def nulls_to_None_def)
  have b: "bulk_insert sample_driver numeric_frame ''USERS'' ?star writable =
       (Inr (),
        writable\<lparr>calls :=
          [Connect ''DSN=dev'' None,
           ExecuteMany ''INSERT INTO USERS (ID,Score) VALUES (?,?);''
             [[Val 9007199254740993, PyNone], [Val 2, Val 5]] None,
           Commit None, ExitCommit]\<rparr>)"
    by (simp add: insert_values_def allow_method_def then_do_def conn_def with_conn_def
        cursor_executemany_def cursor_commit_def outcome_def emit_def ret_def Let_def
        sql_insert_statement_def values_tolist_def common_dtype_def numeric_frame_def
        sample_driver_def writable_def SQLPyodbcHandler_def bulk_insert_def
        bulk_insert_body_def fillna_object_columns_def nulls_to_None_def)
  have c: "bulk_insert sample_driver sample_frame ''USERS'' ?drop writable =
       (Inr (),
        writable\<lparr>calls :=
          [Connect ''DSN=dev'' None,
           ExecuteMany ''INSERT INTO USERS (ID,Name) VALUES (?,?);''
             [[Val 1, Str ''Mary'']] None,
           Commit None, ExitCommit]\<rparr>)"
    using t2
    by (simp add: insert_values_def allow_method_def then_do_def conn_def with_conn_def
        cursor_executemany_def cursor_commit_def outcome_def emit_def ret_def Let_def
        sql_insert_statement_def values_tolist_def common_dtype_def dropna_def
        sample_frame_def sample_driver_def writable_def SQLPyodbcHandler_def
        bulk_insert_def bulk_insert_body_def)
  from h1 h2 h3 a b c show ?thesis
    by blast
qed

text \<open>
  Claim C10. \<^verbatim>\<open>_insert_values\<close> on a frame without rows returns \<^verbatim>\<open>None\<close> and adds
  nothing to the log: no connection is opened and no statement issued. Hence
  \<^verbatim>\<open>bulk_insert\<close> adds nothing to the log, under every null policy and on every
  handle, when the frame (after \<^verbatim>\<open>dropna\<close>, if \<^verbatim>\<open>remove_nulls\<close> is set) has no rows;
  and whatever the frame, none of the passes it issues is a pass without rows.
\<close>

theorem empty_insert_issues_nothing:
  "(rows df = [] \<longrightarrow>
      calls (snd (insert_values d df t i s)) = calls s
      \<and> fst (insert_values d df t i s) = Inr ())
   \<and> (rows (if remove_nulls kw = Some True then dropna df else df) = [] \<longrightarrow>
      calls (snd (bulk_insert d df t kw s)) = calls s)
   \<and> [] \<notin> set (passes (issued s (snd (bulk_insert d df t kw s))))"
proof (intro conjI impI)
  assume "rows df = []"
  with insert_values_log[of d df t i s]
  show "calls (snd (insert_values d df t i s)) = calls s" by auto
next
  assume "rows df = []"
  with insert_values_log[of d df t i s]
  show "fst (insert_values d df t i s) = Inr ()" by auto
next
  let ?df = "if remove_nulls kw = Some True then dropna df else df"
  assume e: "rows ?df = []"
  have ins: "\<And>f b u. rows f = [] \<Longrightarrow> \<not> read_only (handle u) \<Longrightarrow> insert_values d f t b u = (Inr (), u)"
    by (simp add: insert_values_def allow_method_def ret_def values_tolist_Nil)
  show "calls (snd (bulk_insert d df t kw s)) = calls s"
  proof (cases "read_only (handle s)")
    case True
    then show ?thesis by (simp add: bulk_insert_def allow_method_def print_out_def)
  next
    case False
    have rm: "(case remove_nulls kw of None \<Rightarrow> False | Some b \<Rightarrow> b) = (remove_nulls kw = Some True)"
      by (simp split: option.splits)
    from False e show ?thesis
      unfolding bulk_insert_def allow_method_def bulk_insert_body_def Let_def rm
      by (auto simp: ins raise_def then_do_def fillna_object_columns_def nulls_to_None_def
          separate_nulls_def split: option.splits sum.splits list.splits if_splits)
  qed
next
  show "[] \<notin> set (passes (issued s (snd (bulk_insert d df t kw s))))"
  proof (cases "read_only (handle s)")
    case True
    then show ?thesis
      by (simp add: bulk_insert_def allow_method_def print_out_def issued_def)
  next
    case False
    let ?P = "\<lambda>p::'a cell list list. p \<noteq> []"
    have nf: "\<And>xs. [] \<notin> set (filter ?P xs)"
      by simp
    have one: "\<And>f b. [] \<notin> set (passes (issued s (snd (insert_values d f t b s))))"
    proof -
      fix f b
      from one_pass[OF False, of d f t b]
      have "set (passes (issued s (snd (insert_values d f t b s)))) \<subseteq> set (filter ?P [values_tolist d f])"
        by (blast dest: set_mono_prefix)
      with nf show "[] \<notin> set (passes (issued s (snd (insert_values d f t b s))))"
        by blast
    qed
    have two: "\<And>f g b. [] \<notin> set (passes (issued s (snd
        (then_do (insert_values d f t b) (\<lambda>_. insert_values d g t b) s))))"
    proof -
      fix f g b
      from two_passes[OF False, of d f t b g]
      have "set (passes (issued s (snd
          (then_do (insert_values d f t b) (\<lambda>_. insert_values d g t b) s))))
        \<subseteq> set (filter ?P [values_tolist d f, values_tolist d g])"
        by (blast dest: set_mono_prefix)
      with nf show "[] \<notin> set (passes (issued s (snd
          (then_do (insert_values d f t b) (\<lambda>_. insert_values d g t b) s))))"
        by blast
    qed
    have none: "passes (issued s s) = []"
      by (simp add: issued_def)
    from False show ?thesis
      unfolding bulk_insert_def allow_method_def bulk_insert_body_def Let_def
      by (simp add: one two none raise_def split: option.splits sum.splits prod.splits)
  qed
qed

theorem empty_insert_issues_nothing_witness:
  "rows (sample_frame\<lparr>rows := []\<rparr>) = []
   \<and> insert_values sample_driver (sample_frame\<lparr>rows := []\<rparr>) ''USERS'' False writable =
       (Inr (), writable)
   \<and> rows (dropna (sample_frame\<lparr>rows := [[NaN, Str ''Bob''], [Val 3, PyNone]]\<rparr>)) = []
   \<and> bulk_insert sample_driver (sample_frame\<lparr>rows := [[NaN, Str ''Bob''], [Val 3, PyNone]]\<rparr>)
        ''USERS''
        \<lparr>remove_nulls = Some True, handle_nulls = Some ''*'', identity_insert_on = None\<rparr>
        writable =
       (Inr (), writable)"
proof -
  let ?e = "sample_frame\<lparr>rows := []\<rparr>"
  let ?n = "sample_frame\<lparr>rows := [[NaN, Str ''Bob''], [Val 3, PyNone]]\<rparr>"
  let ?kw = "\<lparr>remove_nulls = Some True, handle_nulls = Some ''*'',
      identity_insert_on = None\<rparr>"
  have e1: "rows ?e = []"
    by simp
  have e2: "rows (dropna ?n) = []"
    by (simp add: dropna_def)
  have rm: "remove_nulls ?kw = Some True"
    by simp
  from empty_insert_issues_nothing [where df = ?e and d = sample_driver
      and t = "''USERS''" and i = False and s = writable] e1
  have "calls (snd (insert_values sample_driver ?e ''USERS'' False writable)) = calls writable
      \<and> fst (insert_values sample_driver ?e ''USERS'' False writable) = Inr ()"
    by blast
  moreover have "stdout (snd (insert_values sample_driver ?e ''USERS'' False writable)) =
      stdout writable
      \<and> handle (snd (insert_values sample_driver ?e ''USERS'' False writable)) =
      handle writable"
    by (simp add: insert_values_def allow_method_def ret_def values_tolist_def Let_def
        writable_def SQLPyodbcHandler_def)
  ultimately have i1: "insert_values sample_driver ?e ''USERS'' False writable =
      (Inr (), writable)"
    by (cases "insert_values sample_driver ?e ''USERS'' False writable") simp
  have b1: "bulk_insert sample_driver ?n ''USERS'' ?kw writable = (Inr (), writable)"
    by (simp add: bulk_insert_def bulk_insert_body_def allow_method_def insert_values_def
        ret_def values_tolist_def Let_def dropna_def fillna_object_columns_def
        nulls_to_None_def sample_frame_def writable_def SQLPyodbcHandler_def)
  from e1 i1 e2 b1 show ?thesis
    by blast
qed

section \<open>The alternate handler\<close>

text \<open>
  Claim C6, as stated (the alternate handler has the base handler's contract for
  \<^verbatim>\<open>query\<close>, \<^verbatim>\<open>execute\<close>, \<^verbatim>\<open>iter_execute\<close> and \<^verbatim>\<open>bulk_insert\<close>), fails: where
  the base handler's \<^verbatim>\<open>query\<close> returns the frame and its \<^verbatim>\<open>execute\<close> runs the
  statement, the same calls on the alternate handler raise \<^verbatim>\<open>TypeError\<close>, and its
  \<^verbatim>\<open>bulk_insert\<close> writes a frame without rows that the base handler skips.
\<close>

theorem alternate_handler_counterexample:
  "query sample_driver ''SELECT * FROM USERS;'' None None [] writable =
     (Inr (DataFrame sample_frame),
      writable\<lparr>calls := [Connect ''DSN=dev'' None,
                          ReadSql ''SELECT * FROM USERS;'' None [] None, ExitCommit]\<rparr>)
   \<and> sa_query [''SELECT * FROM USERS;''] writable =
     (Inl (TypeError ''query() takes 1 positional argument but more were given''), writable)
   \<and> execute sample_driver ''DELETE FROM USERS;'' [] writable =
     (Inr (),
      writable\<lparr>calls := [Connect ''DSN=dev'' None,
                          Execute ''DELETE FROM USERS;'' (Some []) None, ExitCommit]\<rparr>)
   \<and> sa_execute [''DELETE FROM USERS;''] writable =
     (Inl (TypeError ''execute() takes 1 positional argument but more were given''), writable)
   \<and> bulk_insert sample_driver (sample_frame\<lparr>rows := []\<rparr>) ''USERS''
        \<lparr>remove_nulls = None, handle_nulls = None, identity_insert_on = None\<rparr> writable =
     (Inr (), writable)
   \<and> sa_bulk_insert sample_driver (sample_frame\<lparr>rows := []\<rparr>) ''USERS''
        \<lparr>remove_nulls = None, handle_nulls = None, identity_insert_on = None\<rparr> writable =
     (Inr (),
      writable\<lparr>calls := [ToSql ''mssql+pyodbc:///?odbc_connect=DSN=dev'' ''USERS''
                            (sample_frame\<lparr>rows := []\<rparr>) None]\<rparr>)"
  by (simp add: query_def execute_def sa_query_def sa_execute_def no_arguments_def
      bulk_insert_def sa_bulk_insert_def bulk_insert_body_def insert_values_def
      values_tolist_def sa_insert_values_def sqlalchemy_conn_def allow_method_def
      then_do_def conn_def with_conn_def read_sql_def cursor_execute_def outcome_def
      emit_def ret_def raise_def Let_def sample_driver_def sample_frame_def writable_def
      SQLPyodbcHandler_def)

text \<open>
  One pass of the alternate handler: one \<^verbatim>\<open>to_sql\<close> of the frame it is given, on the
  engine of the handle's connection string, whatever the rows and the flag.
\<close>

lemma sa_insert_values_once:
  "sa_insert_values d f t b s =
     (outcome (drv_to_sql d (calls s) (sqlalchemy_conn d (handle s)) t f),
      s\<lparr>calls := calls s @
           [ToSql (sqlalchemy_conn d (handle s)) t f
              (drv_to_sql d (calls s) (sqlalchemy_conn d (handle s)) t f)]\<rparr>)"
  by (simp add: sa_insert_values_def emit_def Let_def)

lemma sa_two_passes:
  "calls (snd (then_do (sa_insert_values d f t b) (\<lambda>_. sa_insert_values d g t b) s)) =
     calls s @
       ToSql (sqlalchemy_conn d (handle s)) t f
         (drv_to_sql d (calls s) (sqlalchemy_conn d (handle s)) t f) #
       (case drv_to_sql d (calls s) (sqlalchemy_conn d (handle s)) t f of
          None \<Rightarrow>
            [ToSql (sqlalchemy_conn d (handle s)) t g
               (drv_to_sql d
                  (calls s @ [ToSql (sqlalchemy_conn d (handle s)) t f None])
                  (sqlalchemy_conn d (handle s)) t g)]
        | Some e \<Rightarrow> [])"
  by (simp add: then_do_def sa_insert_values_once outcome_def split: option.splits)

lemma dispatch_plain:
  assumes "\<not> read_only (handle s)" and "handle_nulls kw = None"
  shows "allow_method (bulk_insert_body ins df t kw) s =
           ins (if remove_nulls kw = Some True then dropna df else df) t
             (identity_insert_on kw = Some True) s"
proof -
  have rm: "(case remove_nulls kw of None \<Rightarrow> False | Some b \<Rightarrow> b) = (remove_nulls kw = Some True)"
    by (cases "remove_nulls kw") auto
  have ident: "(case identity_insert_on kw of None \<Rightarrow> False | Some b \<Rightarrow> b) =
      (identity_insert_on kw = Some True)"
    by (cases "identity_insert_on kw") auto
  from assms show ?thesis
    unfolding allow_method_def bulk_insert_body_def Let_def rm ident by simp
qed

lemma dispatch_star:
  assumes "\<not> read_only (handle s)" and "handle_nulls kw = Some ''*''"
  shows "allow_method (bulk_insert_body ins df t kw) s =
           (case fillna_object_columns (if remove_nulls kw = Some True then dropna df else df) of
              Inl e \<Rightarrow> (Inl e, s)
            | Inr df1 \<Rightarrow> ins (nulls_to_None df1) t (identity_insert_on kw = Some True) s)"
proof -
  have rm: "(case remove_nulls kw of None \<Rightarrow> False | Some b \<Rightarrow> b) = (remove_nulls kw = Some True)"
    by (cases "remove_nulls kw") auto
  have ident: "(case identity_insert_on kw of None \<Rightarrow> False | Some b \<Rightarrow> b) =
      (identity_insert_on kw = Some True)"
    by (cases "identity_insert_on kw") auto
  from assms show ?thesis
    unfolding allow_method_def bulk_insert_body_def Let_def rm ident
    by (simp add: raise_def split: sum.splits)
qed

lemma dispatch_column:
  assumes "\<not> read_only (handle s)" and "handle_nulls kw = Some column" and "column \<noteq> ''*''"
  shows "allow_method (bulk_insert_body ins df t kw) s =
           (case separate_nulls (if remove_nulls kw = Some True then dropna df else df) column of
              Inl e \<Rightarrow> (Inl e, s)
            | Inr (vals, nulls) \<Rightarrow>
                then_do (ins vals t (identity_insert_on kw = Some True))
                  (\<lambda>_. ins nulls t (identity_insert_on kw = Some True)) s)"
proof -
  have rm: "(case remove_nulls kw of None \<Rightarrow> False | Some b \<Rightarrow> b) = (remove_nulls kw = Some True)"
    by (cases "remove_nulls kw") auto
  have ident: "(case identity_insert_on kw of None \<Rightarrow> False | Some b \<Rightarrow> b) =
      (identity_insert_on kw = Some True)"
    by (cases "identity_insert_on kw") auto
  from assms show ?thesis
    unfolding allow_method_def bulk_insert_body_def Let_def rm ident
    by (simp add: raise_def split: sum.splits prod.splits)
qed

text \<open>
  Claim C6, amended. The alternate handler keeps the base handler's contract for
  \<^verbatim>\<open>bulk_insert\<close> only. On a read-only handle its \<^verbatim>\<open>bulk_insert\<close> is suppressed
  exactly as the base handler's. On a writable handle both handlers make the same
  dispatch on the null policy, on the frame \<open>df0\<close> left by the optional \<^verbatim>\<open>dropna\<close>:
  with no \<^verbatim>\<open>handle_nulls\<close> one pass on \<open>df0\<close>; with \<^verbatim>\<open>'*'\<close> the exception of the
  column loop, or one pass on the frame with the nulls replaced; with a column name the
  exception of \<^verbatim>\<open>_separate_nulls\<close>, or a pass on the part with values followed by a
  pass on the part with nulls. A pass of the base handler is \<^verbatim>\<open>_insert_values\<close>; a pass
  of the alternate handler is exactly one \<^verbatim>\<open>to_sql\<close> of the frame on the engine of the
  handle's connection string, whether or not the frame has rows, so that with a column
  name it issues the \<^verbatim>\<open>to_sql\<close> of the first part and, unless that raised, the
  \<^verbatim>\<open>to_sql\<close> of the second, and nothing else. Its \<^verbatim>\<open>query\<close>, \<^verbatim>\<open>execute\<close> and
  \<^verbatim>\<open>iter_execute\<close> take no argument, issue nothing and return \<^verbatim>\<open>None\<close>; with any
  argument they raise \<^verbatim>\<open>TypeError\<close>.
\<close>

theorem alternate_handler_contract:
  assumes "url = sqlalchemy_conn d (handle s)"
    and "i = (identity_insert_on kw = Some True)"
    and "df0 = (if remove_nulls kw = Some True then dropna df else df)"
  shows "sa_query ([] :: 'a list) s = (Inr (), s)
   \<and> sa_execute ([] :: 'a list) s = (Inr (), s)
   \<and> sa_iter_execute ([] :: 'a list) s = (Inr (), s)
   \<and> (args \<noteq> [] \<longrightarrow>
        (\<exists>m. sa_query args s = (Inl (TypeError m), s))
      \<and> (\<exists>m. sa_execute args s = (Inl (TypeError m), s))
      \<and> (\<exists>m. sa_iter_execute args s = (Inl (TypeError m), s)))
   \<and> (read_only (handle s) \<longrightarrow>
        sa_bulk_insert d df t kw s = bulk_insert d df t kw s
      \<and> sa_bulk_insert d df t kw s =
          (Inr (), s\<lparr>stdout := stdout s @
             [OutStr ''Cannot perform operation. Access is read-only.'']\<rparr>))
   \<and> sa_insert_values d f t b s =
        (outcome (drv_to_sql d (calls s) url t f),
         s\<lparr>calls := calls s @ [ToSql url t f (drv_to_sql d (calls s) url t f)]\<rparr>)
   \<and> (\<not> read_only (handle s) \<and> handle_nulls kw = None \<longrightarrow>
        sa_bulk_insert d df t kw s = sa_insert_values d df0 t i s
      \<and> bulk_insert d df t kw s = insert_values d df0 t i s)
   \<and> (\<not> read_only (handle s) \<and> handle_nulls kw = Some ''*'' \<longrightarrow>
        sa_bulk_insert d df t kw s =
          (case fillna_object_columns df0 of
             Inl e \<Rightarrow> (Inl e, s)
           | Inr df1 \<Rightarrow> sa_insert_values d (nulls_to_None df1) t i s)
      \<and> bulk_insert d df t kw s =
          (case fillna_object_columns df0 of
             Inl e \<Rightarrow> (Inl e, s)
           | Inr df1 \<Rightarrow> insert_values d (nulls_to_None df1) t i s))
   \<and> (\<not> read_only (handle s) \<and> handle_nulls kw = Some column \<and> column \<noteq> ''*'' \<longrightarrow>
        sa_bulk_insert d df t kw s =
          (case separate_nulls df0 column of
             Inl e \<Rightarrow> (Inl e, s)
           | Inr (vals, nulls) \<Rightarrow>
               then_do (sa_insert_values d vals t i) (\<lambda>_. sa_insert_values d nulls t i) s)
      \<and> bulk_insert d df t kw s =
          (case separate_nulls df0 column of
             Inl e \<Rightarrow> (Inl e, s)
           | Inr (vals, nulls) \<Rightarrow>
               then_do (insert_values d vals t i) (\<lambda>_. insert_values d nulls t i) s)
      \<and> (\<forall>vals nulls. separate_nulls df0 column = Inr (vals, nulls) \<longrightarrow>
           calls (snd (sa_bulk_insert d df t kw s)) =
             calls s @
               ToSql url t vals (drv_to_sql d (calls s) url t vals) #
               (case drv_to_sql d (calls s) url t vals of
                  None \<Rightarrow>
                    [ToSql url t nulls
                       (drv_to_sql d (calls s @ [ToSql url t vals None]) url t nulls)]
                | Some e \<Rightarrow> [])))
   \<and> (\<exists>new. calls (snd (sa_bulk_insert d df t kw s)) = calls s @ new
        \<and> length new \<le> 2
        \<and> list_all (\<lambda>c. \<exists>df' r. c = ToSql url t df' r) new)"
proof -
  have stubs: "sa_query ([] :: 'a list) s = (Inr (), s)
      \<and> sa_execute ([] :: 'a list) s = (Inr (), s)
      \<and> sa_iter_execute ([] :: 'a list) s = (Inr (), s)
      \<and> (args \<noteq> [] \<longrightarrow>
          (\<exists>m. sa_query args s = (Inl (TypeError m), s))
        \<and> (\<exists>m. sa_execute args s = (Inl (TypeError m), s))
        \<and> (\<exists>m. sa_iter_execute args s = (Inl (TypeError m), s)))"
    by (simp add: sa_query_def sa_execute_def sa_iter_execute_def no_arguments_def ret_def
        raise_def)
  have guard: "read_only (handle s) \<longrightarrow>
        sa_bulk_insert d df t kw s = bulk_insert d df t kw s
      \<and> sa_bulk_insert d df t kw s =
          (Inr (), s\<lparr>stdout := stdout s @
             [OutStr ''Cannot perform operation. Access is read-only.'']\<rparr>)"
    by (simp add: sa_bulk_insert_def bulk_insert_def allow_method_def print_out_def)
  have once: "sa_insert_values d f t b s =
        (outcome (drv_to_sql d (calls s) url t f),
         s\<lparr>calls := calls s @ [ToSql url t f (drv_to_sql d (calls s) url t f)]\<rparr>)"
    unfolding assms(1) by (rule sa_insert_values_once)
  have plain: "\<not> read_only (handle s) \<and> handle_nulls kw = None \<longrightarrow>
        sa_bulk_insert d df t kw s = sa_insert_values d df0 t i s
      \<and> bulk_insert d df t kw s = insert_values d df0 t i s"
    unfolding assms(2,3) sa_bulk_insert_def bulk_insert_def
    using dispatch_plain[where ins = "sa_insert_values d" and s = s and kw = kw and df = df and t = t]
      dispatch_plain[where ins = "insert_values d" and s = s and kw = kw and df = df and t = t]
    by blast
  have star: "\<not> read_only (handle s) \<and> handle_nulls kw = Some ''*'' \<longrightarrow>
        sa_bulk_insert d df t kw s =
          (case fillna_object_columns df0 of
             Inl e \<Rightarrow> (Inl e, s)
           | Inr df1 \<Rightarrow> sa_insert_values d (nulls_to_None df1) t i s)
      \<and> bulk_insert d df t kw s =
          (case fillna_object_columns df0 of
             Inl e \<Rightarrow> (Inl e, s)
           | Inr df1 \<Rightarrow> insert_values d (nulls_to_None df1) t i s)"
    unfolding assms(2,3) sa_bulk_insert_def bulk_insert_def
    using dispatch_star[where ins = "sa_insert_values d" and s = s and kw = kw and df = df and t = t]
      dispatch_star[where ins = "insert_values d" and s = s and kw = kw and df = df and t = t]
    by blast
  have col: "\<not> read_only (handle s) \<and> handle_nulls kw = Some column \<and> column \<noteq> ''*'' \<longrightarrow>
        sa_bulk_insert d df t kw s =
          (case separate_nulls df0 column of
             Inl e \<Rightarrow> (Inl e, s)
           | Inr (vals, nulls) \<Rightarrow>
               then_do (sa_insert_values d vals t i) (\<lambda>_. sa_insert_values d nulls t i) s)
      \<and> bulk_insert d df t kw s =
          (case separate_nulls df0 column of
             Inl e \<Rightarrow> (Inl e, s)
           | Inr (vals, nulls) \<Rightarrow>
               then_do (insert_values d vals t i) (\<lambda>_. insert_values d nulls t i) s)"
    unfolding assms(2,3) sa_bulk_insert_def bulk_insert_def
    using dispatch_column[where ins = "sa_insert_values d" and s = s and kw = kw and df = df
        and t = t and column = column]
      dispatch_column[where ins = "insert_values d" and s = s and kw = kw and df = df
        and t = t and column = column]
    by blast
  have col_log: "\<not> read_only (handle s) \<and> handle_nulls kw = Some column \<and> column \<noteq> ''*'' \<longrightarrow>
      (\<forall>vals nulls. separate_nulls df0 column = Inr (vals, nulls) \<longrightarrow>
           calls (snd (sa_bulk_insert d df t kw s)) =
             calls s @
               ToSql url t vals (drv_to_sql d (calls s) url t vals) #
               (case drv_to_sql d (calls s) url t vals of
                  None \<Rightarrow>
                    [ToSql url t nulls
                       (drv_to_sql d (calls s @ [ToSql url t vals None]) url t nulls)]
                | Some e \<Rightarrow> []))"
  proof (intro impI allI)
    fix vals nulls
    assume a: "\<not> read_only (handle s) \<and> handle_nulls kw = Some column \<and> column \<noteq> ''*''"
      and sep: "separate_nulls df0 column = Inr (vals, nulls)"
    from col a sep have "sa_bulk_insert d df t kw s =
        then_do (sa_insert_values d vals t i) (\<lambda>_. sa_insert_values d nulls t i) s"
      by simp
    then show "calls (snd (sa_bulk_insert d df t kw s)) =
             calls s @
               ToSql url t vals (drv_to_sql d (calls s) url t vals) #
               (case drv_to_sql d (calls s) url t vals of
                  None \<Rightarrow>
                    [ToSql url t nulls
                       (drv_to_sql d (calls s @ [ToSql url t vals None]) url t nulls)]
                | Some e \<Rightarrow> [])"
      unfolding assms(1) by (simp add: sa_two_passes)
  qed
  have log: "\<exists>new. calls (snd (sa_bulk_insert d df t kw s)) = calls s @ new
        \<and> length new \<le> 2
        \<and> list_all (\<lambda>c. \<exists>df' r. c = ToSql url t df' r) new"
    unfolding assms(1) sa_bulk_insert_def allow_method_def bulk_insert_body_def Let_def
    by (simp add: sa_insert_values_def then_do_def raise_def outcome_def emit_def
        print_out_def Let_def split: option.splits sum.splits prod.splits)
  from stubs guard once plain star col col_log log show ?thesis by blast
qed

theorem alternate_handler_contract_witness:
  "[''SELECT * FROM USERS;''] \<noteq> []
   \<and> sa_query [''SELECT * FROM USERS;''] writable =
       (Inl (TypeError ''query() takes 1 positional argument but more were given''), writable)
   \<and> read_only (handle readonly)
   \<and> sa_bulk_insert sample_driver sample_frame ''USERS''
        \<lparr>remove_nulls = None, handle_nulls = None, identity_insert_on = None\<rparr> readonly =
       (Inr (), readonly\<lparr>stdout :=
          [OutStr ''Cannot perform operation. Access is read-only.'']\<rparr>)
   \<and> \<not> read_only (handle writable)
   \<and> ''ID'' \<noteq> ''*''
   \<and> separate_nulls numeric_frame ''ID'' =
       Inr (numeric_frame, \<lparr>columns = [(''ID'', Object), (''Score'', Float64)], rows = []\<rparr>)
   \<and> calls (snd (sa_bulk_insert sample_driver numeric_frame ''USERS''
        \<lparr>remove_nulls = None, handle_nulls = Some ''ID'', identity_insert_on = None\<rparr>
        writable)) =
       [ToSql ''mssql+pyodbc:///?odbc_connect=DSN=dev'' ''USERS'' numeric_frame None,
        ToSql ''mssql+pyodbc:///?odbc_connect=DSN=dev'' ''USERS''
          \<lparr>columns = [(''ID'', Object), (''Score'', Float64)], rows = []\<rparr> None]
   \<and> calls (snd (bulk_insert sample_driver numeric_frame ''USERS''
        \<lparr>remove_nulls = None, handle_nulls = Some ''ID'', identity_insert_on = None\<rparr>
        writable)) =
       [Connect ''DSN=dev'' None,
        ExecuteMany ''INSERT INTO USERS (ID,Score) VALUES (?,?);''
          [[Val 9007199254740992, NaN], [Val 2, Val 5]] None,
        Commit None, ExitCommit]"
proof -
  let ?kw = "\<lparr>remove_nulls = None, handle_nulls = None, identity_insert_on = None\<rparr>"
  let ?kc = "\<lparr>remove_nulls = None, handle_nulls = Some ''ID'', identity_insert_on = None\<rparr>"
  let ?url = "''mssql+pyodbc:///?odbc_connect=DSN=dev''"
  let ?nulls = "\<lparr>columns = [(''ID'', Object), (''Score'', Float64)],
      rows = ([] :: nat cell list list)\<rparr>"
  have a: "[''SELECT * FROM USERS;''] \<noteq> []"
    by simp
  have ro: "read_only (handle readonly)"
    by (simp add: readonly_def SQLPyodbcHandler_def)
  have w: "\<not> read_only (handle writable)"
    by (simp add: writable_def SQLPyodbcHandler_def)
  have u: "?url = sqlalchemy_conn sample_driver (handle writable)"
    by (simp add: sqlalchemy_conn_def sample_driver_def writable_def SQLPyodbcHandler_def)
  have i: "False = (identity_insert_on ?kc = Some True)"
    by simp
  have f: "numeric_frame = (if remove_nulls ?kc = Some True then dropna numeric_frame
      else numeric_frame)"
    by simp
  have c: "''ID'' \<noteq> ''*''"
    by simp
  have p: "positions ''ID'' (map fst (columns numeric_frame)) = [0]"
    by (simp add: positions_def numeric_frame_def upt_rec)
  have sep: "separate_nulls numeric_frame ''ID'' = Inr (numeric_frame, ?nulls)"
    by (simp add: separate_nulls_def p) (simp add: numeric_frame_def)
  from alternate_handler_contract [OF refl refl refl,
      where args = "[''SELECT * FROM USERS;'']" and s = writable] a
  have "\<exists>m. sa_query [''SELECT * FROM USERS;''] writable = (Inl (TypeError m), writable)"
    by blast
  then have q: "sa_query [''SELECT * FROM USERS;''] writable =
       (Inl (TypeError ''query() takes 1 positional argument but more were given''), writable)"
    by (simp add: sa_query_def no_arguments_def raise_def)
  from alternate_handler_contract [OF refl refl refl, where s = readonly
      and d = sample_driver and df = sample_frame and t = "''USERS''" and kw = ?kw] ro
  have "sa_bulk_insert sample_driver sample_frame ''USERS'' ?kw readonly =
          (Inr (), readonly\<lparr>stdout := stdout readonly @
             [OutStr ''Cannot perform operation. Access is read-only.'']\<rparr>)"
    by blast
  then have b1: "sa_bulk_insert sample_driver sample_frame ''USERS'' ?kw readonly =
       (Inr (), readonly\<lparr>stdout :=
          [OutStr ''Cannot perform operation. Access is read-only.'']\<rparr>)"
    by (simp add: readonly_def)
  note t = alternate_handler_contract [OF u i f, where column = "''ID''"
      and t = "''USERS''"]
  have hn: "handle_nulls ?kc = Some ''ID''"
    by simp
  from t have col:
    "\<not> read_only (handle writable) \<and> handle_nulls ?kc = Some ''ID'' \<and> ''ID'' \<noteq> ''*'' \<longrightarrow>
       bulk_insert sample_driver numeric_frame ''USERS'' ?kc writable =
          (case separate_nulls numeric_frame ''ID'' of
             Inl e \<Rightarrow> (Inl e, writable)
           | Inr (vals, nulls) \<Rightarrow>
               then_do (insert_values sample_driver vals ''USERS'' False)
                 (\<lambda>_. insert_values sample_driver nulls ''USERS'' False) writable)
     \<and> (\<forall>vals nulls. separate_nulls numeric_frame ''ID'' = Inr (vals, nulls) \<longrightarrow>
           calls (snd (sa_bulk_insert sample_driver numeric_frame ''USERS'' ?kc writable)) =
             calls writable @
               ToSql ?url ''USERS'' vals
                 (drv_to_sql sample_driver (calls writable) ?url ''USERS'' vals) #
               (case drv_to_sql sample_driver (calls writable) ?url ''USERS'' vals of
                  None \<Rightarrow>
                    [ToSql ?url ''USERS'' nulls
                       (drv_to_sql sample_driver
                          (calls writable @ [ToSql ?url ''USERS'' vals None])
                          ?url ''USERS'' nulls)]
                | Some e \<Rightarrow> []))"
    by blast
  with w hn c sep
  have "calls (snd (sa_bulk_insert sample_driver numeric_frame ''USERS'' ?kc writable)) =
      calls writable @
        ToSql ?url ''USERS'' numeric_frame
          (drv_to_sql sample_driver (calls writable) ?url ''USERS'' numeric_frame) #
        (case drv_to_sql sample_driver (calls writable) ?url ''USERS'' numeric_frame of
           None \<Rightarrow>
             [ToSql ?url ''USERS'' ?nulls
                (drv_to_sql sample_driver
                   (calls writable @ [ToSql ?url ''USERS'' numeric_frame None])
                   ?url ''USERS'' ?nulls)]
         | Some e \<Rightarrow> [])"
    by blast
  then have b2: "calls (snd (sa_bulk_insert sample_driver numeric_frame ''USERS'' ?kc
      writable)) =
       [ToSql ?url ''USERS'' numeric_frame None, ToSql ?url ''USERS'' ?nulls None]"
    by (simp add: sample_driver_def writable_def)
  from col w hn c
  have "bulk_insert sample_driver numeric_frame ''USERS'' ?kc writable =
          (case separate_nulls numeric_frame ''ID'' of
             Inl e \<Rightarrow> (Inl e, writable)
           | Inr (vals, nulls) \<Rightarrow>
               then_do (insert_values sample_driver vals ''USERS'' False)
                 (\<lambda>_. insert_values sample_driver nulls ''USERS'' False) writable)"
    by blast
  then have "bulk_insert sample_driver numeric_frame ''USERS'' ?kc writable =
      then_do (insert_values sample_driver numeric_frame ''USERS'' False)
        (\<lambda>_. insert_values sample_driver ?nulls ''USERS'' False) writable"
    by (simp add: sep)
  then have b3: "calls (snd (bulk_insert sample_driver numeric_frame ''USERS'' ?kc
      writable)) =
       [Connect ''DSN=dev'' None,
        ExecuteMany ''INSERT INTO USERS (ID,Score) VALUES (?,?);''
          [[Val 9007199254740992, NaN], [Val 2, Val 5]] None,
        Commit None, ExitCommit]"
    by (simp add: then_do_def insert_values_def allow_method_def conn_def with_conn_def
        cursor_executemany_def cursor_commit_def outcome_def emit_def ret_def Let_def
        sql_insert_statement_def values_tolist_def common_dtype_def numeric_frame_def
        sample_driver_def writable_def SQLPyodbcHandler_def)
  from a q ro b1 w c sep b2 b3 show ?thesis
    by blast
qed

end
